theory Spec2Isabelle
  imports Complex_Main
begin

section \<open>Numbers, points, vectors and matrices\<close>

text \<open>
  The view algebra of \<^verbatim>\<open>core/frontend/src/ViewState.ts\<close> is embedded over the reals:
  a JavaScript \<^verbatim>\<open>number\<close> is a \<^typ>\<open>real\<close>, so comparisons, branches and the
  algebraic formulas are those of the source, while rounding, \<^verbatim>\<open>NaN\<close> and the
  infinities are outside the model.  A quotient whose divisor is zero is 0 here and
  infinite or \<^verbatim>\<open>NaN\<close> in the source; where a theorem below branches on a quotient
  it assumes the divisor to be nonzero.
  Methods that mutate their receiver return the new state; a method that returns a
  status returns the pair of the status and the new state.
\<close>

text \<open>
  Modelled from the spec: the geometry primitives (\<^verbatim>\<open>@bentley/geometry-core\<close>) are not
  among the sources.  \<^verbatim>\<open>Point3d\<close>, \<^verbatim>\<open>Vector3d\<close> and \<^verbatim>\<open>XYAndZ\<close> are one type of
  triples; a \<^verbatim>\<open>Matrix3d\<close> is given by its three rows.  The operations below are the
  ones whose meaning is fixed by ordinary vector algebra; every operation that has a
  tolerance or can fail is a field of the record \<open>Deps\<close> further down and stays a
  parameter of the development.
\<close>

datatype vec3 = Vec3 (vx: real) (vy: real) (vz: real)

datatype mat3 = Mat3 (rowX: vec3) (rowY: vec3) (rowZ: vec3)

definition zero3 :: vec3 where
  "zero3 = Vec3 0 0 0"

definition plus3 :: "vec3 \<Rightarrow> vec3 \<Rightarrow> vec3" where
  "plus3 a b = Vec3 (vx a + vx b) (vy a + vy b) (vz a + vz b)"

definition minus3 :: "vec3 \<Rightarrow> vec3 \<Rightarrow> vec3" where
  "minus3 a b = Vec3 (vx a - vx b) (vy a - vy b) (vz a - vz b)"

definition scale3 :: "vec3 \<Rightarrow> real \<Rightarrow> vec3" where
  "scale3 a k = Vec3 (vx a * k) (vy a * k) (vz a * k)"

definition dotProduct :: "vec3 \<Rightarrow> vec3 \<Rightarrow> real" where
  "dotProduct a b = vx a * vx b + vy a * vy b + vz a * vz b"

definition crossProduct :: "vec3 \<Rightarrow> vec3 \<Rightarrow> vec3" where
  "crossProduct a b =
     Vec3 (vy a * vz b - vz a * vy b) (vz a * vx b - vx a * vz b) (vx a * vy b - vy a * vx b)"

definition magnitude :: "vec3 \<Rightarrow> real" where
  "magnitude a = sqrt (dotProduct a a)"

definition magnitudeXY :: "vec3 \<Rightarrow> real" where
  "magnitudeXY a = sqrt (vx a * vx a + vy a * vy a)"

definition distance :: "vec3 \<Rightarrow> vec3 \<Rightarrow> real" where
  "distance a b = magnitude (minus3 b a)"

text \<open>\<^verbatim>\<open>a.vectorTo(b)\<close> and \<^verbatim>\<open>Vector3d.createStartEnd(a, b)\<close>: the vector from a to b.\<close>

definition vectorTo :: "vec3 \<Rightarrow> vec3 \<Rightarrow> vec3" where
  "vectorTo a b = minus3 b a"

definition createStartEnd :: "vec3 \<Rightarrow> vec3 \<Rightarrow> vec3" where
  "createStartEnd a b = minus3 b a"

definition plusScaled :: "vec3 \<Rightarrow> vec3 \<Rightarrow> real \<Rightarrow> vec3" where
  "plusScaled p a ka = plus3 p (scale3 a ka)"

definition plus2Scaled :: "vec3 \<Rightarrow> vec3 \<Rightarrow> real \<Rightarrow> vec3 \<Rightarrow> real \<Rightarrow> vec3" where
  "plus2Scaled p a ka b kb = plus3 (plus3 p (scale3 a ka)) (scale3 b kb)"

definition plus3Scaled ::
  "vec3 \<Rightarrow> vec3 \<Rightarrow> real \<Rightarrow> vec3 \<Rightarrow> real \<Rightarrow> vec3 \<Rightarrow> real \<Rightarrow> vec3" where
  "plus3Scaled p a ka b kb c kc =
     plus3 (plus3 (plus3 p (scale3 a ka)) (scale3 b kb)) (scale3 c kc)"

definition createRows :: "vec3 \<Rightarrow> vec3 \<Rightarrow> vec3 \<Rightarrow> mat3" where
  "createRows a b c = Mat3 a b c"

definition columnX :: "mat3 \<Rightarrow> vec3" where
  "columnX m = Vec3 (vx (rowX m)) (vx (rowY m)) (vx (rowZ m))"

definition columnY :: "mat3 \<Rightarrow> vec3" where
  "columnY m = Vec3 (vy (rowX m)) (vy (rowY m)) (vy (rowZ m))"

definition columnZ :: "mat3 \<Rightarrow> vec3" where
  "columnZ m = Vec3 (vz (rowX m)) (vz (rowY m)) (vz (rowZ m))"

definition transpose3 :: "mat3 \<Rightarrow> mat3" where
  "transpose3 m = Mat3 (columnX m) (columnY m) (columnZ m)"

text \<open>\<^verbatim>\<open>m.multiplyVector(v)\<close> is the product m v, \<^verbatim>\<open>m.multiplyTransposeVector(v)\<close>
  the product of the transpose of m with v.\<close>

definition multiplyVector :: "mat3 \<Rightarrow> vec3 \<Rightarrow> vec3" where
  "multiplyVector m v = Vec3 (dotProduct (rowX m) v) (dotProduct (rowY m) v) (dotProduct (rowZ m) v)"

definition multiplyTransposeVector :: "mat3 \<Rightarrow> vec3 \<Rightarrow> vec3" where
  "multiplyTransposeVector m v = multiplyVector (transpose3 m) v"

definition determinant :: "mat3 \<Rightarrow> real" where
  "determinant m = dotProduct (rowX m) (crossProduct (rowY m) (rowZ m))"

text \<open>\<^verbatim>\<open>Math.atan2(y, x)\<close> on finite arguments.\<close>

definition atan2 :: "real \<Rightarrow> real \<Rightarrow> real" where
  "atan2 y x =
     (if 0 < x then arctan (y / x)
      else if x < 0 then (if 0 \<le> y then arctan (y / x) + pi else arctan (y / x) - pi)
      else if 0 < y then pi / 2
      else if y < 0 then - (pi / 2)
      else 0)"

text \<open>
  Modelled from the spec: the unit constants of \<^verbatim>\<open>Constant\<close> (geometry-core), in metres,
  as the spec names them (1 mm, 15.2 cm, 0.5 m, 10 km).
\<close>

definition oneMillimeter :: real where
  "oneMillimeter = 1 / 1000"

definition oneCentimeter :: real where
  "oneCentimeter = 1 / 100"

definition oneMeter :: real where
  "oneMeter = 1"

definition oneKilometer :: real where
  "oneKilometer = 1000"

section \<open>Status codes and extent limits\<close>

datatype ViewStatus =
    Success
  | ViewNotInitialized
  | AlreadyAttached
  | NotAttached
  | DrawFailure
  | NotResized
  | ModelNotFound
  | InvalidWindow
  | MinWindow
  | MaxWindow
  | MaxZoom
  | MaxDisplayDepth
  | InvalidUpVector
  | InvalidTargetPoint
  | InvalidLens
  | InvalidViewport

text \<open>The interface \<^verbatim>\<open>ExtentLimits\<close>; its fields \<^verbatim>\<open>min\<close> and \<^verbatim>\<open>max\<close> are suffixed.\<close>

record ExtentLimits =
  min_limit :: real
  max_limit :: real

text \<open>
  The local closure \<^verbatim>\<open>limitWindowSize\<close> of \<^verbatim>\<open>validateViewDelta\<close>.  It assigns the
  captured variable \<^verbatim>\<open>error\<close>; here the current value of \<^verbatim>\<open>error\<close> goes in and the
  new one comes out with the limited value.
\<close>

definition limitWindowSize ::
  "ExtentLimits \<Rightarrow> ViewStatus \<Rightarrow> real \<Rightarrow> bool \<Rightarrow> real \<times> ViewStatus" where
  "limitWindowSize limit error v ignoreError =
     (if v < min_limit limit then
        (min_limit limit, if \<not> ignoreError then MinWindow else error)
      else if v > max_limit limit then
        (max_limit limit, if \<not> ignoreError then MaxWindow else error)
      else (v, error))"

text \<open>
  \<^verbatim>\<open>validateViewDelta(delta, messageNeeded)\<close> limits \<^verbatim>\<open>delta\<close> in place and returns the
  status; the model returns the status and the limited vector.  The notification sent
  when \<^verbatim>\<open>messageNeeded\<close> is set changes neither, and is described by
  \<open>validateViewDelta_message\<close>.
\<close>

definition validateViewDelta :: "ExtentLimits \<Rightarrow> vec3 \<Rightarrow> ViewStatus \<times> vec3" where
  "validateViewDelta limit delta =
     (let (x', error1) = limitWindowSize limit Success (vx delta) False;
          (y', error2) = limitWindowSize limit error1 (vy delta) False;
          (z', error3) = limitWindowSize limit error2 (vz delta) True
      in (error3, Vec3 x' y' z'))"

definition showFrustumErrorMessage :: "ViewStatus \<Rightarrow> string option" where
  "showFrustumErrorMessage status =
     (case status of
        InvalidWindow \<Rightarrow> Some ''Viewing.InvalidWindow''
      | MaxWindow \<Rightarrow> Some ''Viewing.MaxWindow''
      | MinWindow \<Rightarrow> Some ''Viewing.MinWindow''
      | MaxZoom \<Rightarrow> Some ''Viewing.MaxZoom''
      | _ \<Rightarrow> None)"

definition validateViewDelta_message :: "ExtentLimits \<Rightarrow> vec3 \<Rightarrow> bool \<Rightarrow> string option" where
  "validateViewDelta_message limit delta messageNeeded =
     (let error = fst (validateViewDelta limit delta)
      in if messageNeeded \<and> error \<noteq> Success then showFrustumErrorMessage error else None)"

section \<open>Frustum, camera and view state\<close>

text \<open>
  A \<^verbatim>\<open>Frustum\<close> is its eight corner points.  The source reads them as
  \<^verbatim>\<open>frustum.points[Npc.LeftBottomRear]\<close> and so on; the record has one field per
  member of the enumeration \<^verbatim>\<open>Npc\<close>.
\<close>

record Frustum =
  LeftBottomRear :: vec3
  RightBottomRear :: vec3
  LeftTopRear :: vec3
  RightTopRear :: vec3
  LeftBottomFront :: vec3
  RightBottomFront :: vec3
  LeftTopFront :: vec3
  RightTopFront :: vec3

text \<open>
  Modelled from the spec: the class \<^verbatim>\<open>Camera\<close> (imodeljs-common) is not among the
  sources.  Its fields are the lens angle in radians, the focus distance and the eye
  point; \<^verbatim>\<open>setEyePoint\<close> and \<^verbatim>\<open>setFocusDistance\<close> store their argument (the spec:
  no clamping there), and \<^verbatim>\<open>setLensAngle\<close> rejects an angle outside the open
  interval from 0.0001 to \<open>\<pi>\<close>, keeping the stored lens.
\<close>

record Camera =
  lens :: real
  focusDist :: real
  eye :: vec3

definition Camera_setEyePoint :: "Camera \<Rightarrow> vec3 \<Rightarrow> Camera" where
  "Camera_setEyePoint c pt = c\<lparr>eye := pt\<rparr>"

definition Camera_setFocusDistance :: "Camera \<Rightarrow> real \<Rightarrow> Camera" where
  "Camera_setFocusDistance c d = c\<lparr>focusDist := d\<rparr>"

definition Camera_setLensAngle :: "Camera \<Rightarrow> real \<Rightarrow> Camera" where
  "Camera_setLensAngle c angle =
     (if 1 / 10000 < angle \<and> angle < pi then c\<lparr>lens := angle\<rparr> else c)"

text \<open>
  The state of a \<^verbatim>\<open>ViewState3d\<close>: the fields the view algebra reads and writes.
  \<open>extentLimitsOverride\<close> is the private \<^verbatim>\<open>_extentLimits\<close> of the base class and
  \<open>defaultExtentLimits\<close> the value of the abstract getter of that name;
  \<open>aspectSkew\<close> is the view detail \<^verbatim>\<open>"aspectSkew"\<close>; \<open>cameraSupported\<close> is the
  result of \<^verbatim>\<open>supportsCamera()\<close>, false for an \<^verbatim>\<open>OrthographicViewState\<close> only.
\<close>

record ViewState3d =
  cameraOn :: bool
  origin :: vec3
  extents :: vec3
  rotation :: mat3
  camera :: Camera
  forceMinFrontDist :: real
  extentLimitsOverride :: "ExtentLimits option"
  defaultExtentLimits :: ExtentLimits
  aspectSkew :: "real option"
  cameraSupported :: bool

text \<open>
  The parts of the repository that \<^verbatim>\<open>ViewState.ts\<close> calls and that are not among the
  sources: the tolerance \<^verbatim>\<open>Geometry.smallMetricDistance\<close>, the constant
  \<^verbatim>\<open>Viewport.nearScale24\<close>, and the operations of \<^verbatim>\<open>Vector3d\<close>, \<^verbatim>\<open>Matrix3d\<close>,
  \<^verbatim>\<open>StandardView\<close>, \<^verbatim>\<open>Frustum\<close>, \<^verbatim>\<open>Map4d\<close> and \<^verbatim>\<open>Camera\<close> that can fail or
  depend on a tolerance.  They are parameters: a result of the source that is
  \<^verbatim>\<open>undefined\<close> is \<open>None\<close>.  The type variable stands for \<^verbatim>\<open>Map4d\<close>.
\<close>

record 'm Deps =
  smallMetricDistance :: real
  nearScale24 :: real
  normalize_vec :: "vec3 \<Rightarrow> vec3 option"
  normalizeWithLength :: "vec3 \<Rightarrow> vec3 \<times> real"
  createRigidFromColumns :: "vec3 \<Rightarrow> vec3 \<Rightarrow> mat3 option"
  matrixInverse :: "mat3 \<Rightarrow> mat3 option"
  createRotationAroundVector :: "vec3 \<Rightarrow> real \<Rightarrow> mat3 option"
  adjustToStandardRotation :: "mat3 \<Rightarrow> mat3"
  fixPointOrder :: "Frustum \<Rightarrow> Frustum"
  frustumCenter :: "Frustum \<Rightarrow> vec3"
  createVectorFrustum :: "vec3 \<Rightarrow> vec3 \<Rightarrow> vec3 \<Rightarrow> vec3 \<Rightarrow> real \<Rightarrow> 'm option"
  validateLens :: "Camera \<Rightarrow> Camera"
  isNull :: "vec3 \<times> vec3 \<Rightarrow> bool"

subsection \<open>Getters and setters of ViewState3d\<close>

definition extentLimits :: "ViewState3d \<Rightarrow> ExtentLimits" where
  "extentLimits s =
     (case extentLimitsOverride s of Some l \<Rightarrow> l | None \<Rightarrow> defaultExtentLimits s)"

definition getOrigin :: "ViewState3d \<Rightarrow> vec3" where
  "getOrigin s = origin s"

definition getExtents :: "ViewState3d \<Rightarrow> vec3" where
  "getExtents s = extents s"

definition getRotation :: "ViewState3d \<Rightarrow> mat3" where
  "getRotation s = rotation s"

definition setOrigin :: "ViewState3d \<Rightarrow> vec3 \<Rightarrow> ViewState3d" where
  "setOrigin s p = s\<lparr>origin := p\<rparr>"

definition setExtents :: "ViewState3d \<Rightarrow> vec3 \<Rightarrow> ViewState3d" where
  "setExtents s d = s\<lparr>extents := d\<rparr>"

definition setRotation :: "ViewState3d \<Rightarrow> mat3 \<Rightarrow> ViewState3d" where
  "setRotation s rot = s\<lparr>rotation := rot\<rparr>"

definition enableCamera :: "ViewState3d \<Rightarrow> ViewState3d" where
  "enableCamera s = (if cameraSupported s then s\<lparr>cameraOn := True\<rparr> else s)"

definition turnCameraOff :: "ViewState3d \<Rightarrow> ViewState3d" where
  "turnCameraOff s = s\<lparr>cameraOn := False\<rparr>"

definition minimumFrontDistance :: "ViewState3d \<Rightarrow> real" where
  "minimumFrontDistance s = max (152 / 10 * oneCentimeter) (forceMinFrontDist s)"

definition getXVector :: "ViewState3d \<Rightarrow> vec3" where
  "getXVector s = rowX (getRotation s)"

definition getYVector :: "ViewState3d \<Rightarrow> vec3" where
  "getYVector s = rowY (getRotation s)"

definition getZVector :: "ViewState3d \<Rightarrow> vec3" where
  "getZVector s = rowZ (getRotation s)"

definition getEyePoint :: "ViewState3d \<Rightarrow> vec3" where
  "getEyePoint s = eye (camera s)"

definition getLensAngle :: "ViewState3d \<Rightarrow> real" where
  "getLensAngle s = lens (camera s)"

definition getFocusDistance :: "ViewState3d \<Rightarrow> real" where
  "getFocusDistance s = focusDist (camera s)"

definition setLensAngle :: "ViewState3d \<Rightarrow> real \<Rightarrow> ViewState3d" where
  "setLensAngle s angle = s\<lparr>camera := Camera_setLensAngle (camera s) angle\<rparr>"

definition setEyePoint :: "ViewState3d \<Rightarrow> vec3 \<Rightarrow> ViewState3d" where
  "setEyePoint s pt = s\<lparr>camera := Camera_setEyePoint (camera s) pt\<rparr>"

definition setFocusDistance :: "ViewState3d \<Rightarrow> real \<Rightarrow> ViewState3d" where
  "setFocusDistance s d = s\<lparr>camera := Camera_setFocusDistance (camera s) d\<rparr>"

text \<open>
  \<^verbatim>\<open>getAspectRatioSkew\<close> reads the detail through \<^verbatim>\<open>getDetail\<close>, which replaces a
  falsy stored value by an empty object, and \<^verbatim>\<open>JsonUtils.asDouble\<close> then gives the
  default 1.0.
\<close>

definition getAspectRatioSkew :: "ViewState3d \<Rightarrow> real" where
  "getAspectRatioSkew s =
     (case aspectSkew s of None \<Rightarrow> 1 | Some v \<Rightarrow> if v = 0 then 1 else v)"

definition calcLensAngle :: "ViewState3d \<Rightarrow> real" where
  "calcLensAngle s =
     (let maxDelta = max (vx (extents s)) (vy (extents s))
      in 2 * atan2 (maxDelta * (1 / 2)) (focusDist (camera s)))"

definition getCenter :: "ViewState3d \<Rightarrow> vec3" where
  "getCenter s =
     (let delta = multiplyVector (transpose3 (getRotation s)) (getExtents s)
      in plusScaled (getOrigin s) delta (1 / 2))"

text \<open>\<^verbatim>\<open>ViewState3d.getTargetPoint\<close>, which falls back on the base class (the centre).\<close>

definition getTargetPoint :: "ViewState3d \<Rightarrow> vec3" where
  "getTargetPoint s =
     (if \<not> cameraOn s then getCenter s
      else let viewZ = rowZ (getRotation s)
           in plusScaled (getEyePoint s) viewZ (-1 * getFocusDistance s))"

definition getBackDistance :: "ViewState3d \<Rightarrow> real" where
  "getBackDistance s =
     (let eyeOrg = vectorTo (origin s) (getEyePoint s)
      in vz (multiplyVector (getRotation s) eyeOrg))"

definition getFrontDistance :: "ViewState3d \<Rightarrow> real" where
  "getFrontDistance s = getBackDistance s - vz (extents s)"

definition calculateMaxDepth :: "vec3 \<Rightarrow> vec3 \<Rightarrow> real" where
  "calculateMaxDepth delta zVec =
     (let depthRatioLimit = 100000000;
          maxTransformRowRatio = 100000;
          minXYComponent = min \<bar>vx zVec\<bar> \<bar>vy zVec\<bar>;
          maxDepthRatio = (if 0 = minXYComponent then depthRatioLimit
                           else min (maxTransformRowRatio / minXYComponent) depthRatioLimit)
      in max (vx delta) (vy delta) * maxDepthRatio)"

text \<open>
  An optional numeric argument tested by truthiness, \<^verbatim>\<open>v ? v : d\<close>: an absent argument
  and the number 0 both give the default.
\<close>

definition numberOr :: "real option \<Rightarrow> real \<Rightarrow> real" where
  "numberOr v d = (case v of None \<Rightarrow> d | Some x \<Rightarrow> if x = 0 then d else x)"

text \<open>
  Modelled from the spec: \<^verbatim>\<open>Transform\<close> (geometry-core) is an affine map, a matrix and
  an origin; its inverse exists when the inverse of its matrix does.
\<close>

type_synonym Transform = "vec3 \<times> mat3"

definition createOriginAndMatrix :: "vec3 \<Rightarrow> mat3 \<Rightarrow> Transform" where
  "createOriginAndMatrix p m = (p, m)"

definition createFixedPointAndMatrix :: "vec3 \<Rightarrow> mat3 \<Rightarrow> Transform" where
  "createFixedPointAndMatrix p m = (minus3 p (multiplyVector m p), m)"

definition multiplyPoint3d :: "Transform \<Rightarrow> vec3 \<Rightarrow> vec3" where
  "multiplyPoint3d t p = plus3 (multiplyVector (snd t) p) (fst t)"

definition Transform_inverse :: "'m Deps \<Rightarrow> Transform \<Rightarrow> Transform option" where
  "Transform_inverse g t =
     (case matrixInverse g (snd t) of
        None \<Rightarrow> None
      | Some mi \<Rightarrow> Some (scale3 (multiplyVector mi (fst t)) (- 1), mi))"

section \<open>The frustum-to-view solver\<close>

text \<open>
  \<^verbatim>\<open>ViewState.setupFromFrustum\<close> (the base class), run on a \<^verbatim>\<open>ViewState3d\<close>: the
  three setters at its end are those of \<^verbatim>\<open>ViewState3d\<close>.  The result of
  \<^verbatim>\<open>validateViewDelta\<close> is dropped there, only the limited vector is kept.
\<close>

definition ViewState_setupFromFrustum ::
  "'m Deps \<Rightarrow> ViewState3d \<Rightarrow> Frustum \<Rightarrow> ViewStatus \<times> ViewState3d" where
  "ViewState_setupFromFrustum g s inFrustum =
     (let frustum = fixPointOrder g inFrustum;
          viewOrg0 = LeftBottomRear frustum;
          frustumX = minus3 (RightBottomRear frustum) viewOrg0;
          frustumY = minus3 (LeftTopRear frustum) viewOrg0;
          frustumZ = minus3 (LeftBottomFront frustum) viewOrg0
      in case createRigidFromColumns g frustumX frustumY of
           None \<Rightarrow> (InvalidWindow, s)
         | Some rigid \<Rightarrow>
            (let frustMatrix = adjustToStandardRotation g rigid;
                 xDir = columnX frustMatrix;
                 yDir = columnY frustMatrix;
                 zDir = columnZ frustMatrix
             in case matrixInverse g frustMatrix of
                  None \<Rightarrow> (InvalidWindow, s)
                | Some viewRot \<Rightarrow>
                   (let zSize = dotProduct zDir frustumZ
                    in if zSize < 0 then (InvalidWindow, s)
                       else
                        (let viewDiagRoot0 =
                               plus2Scaled zero3 xDir (dotProduct xDir frustumX)
                                 yDir (dotProduct yDir frustumY);
                             viewDiagRoot = plusScaled viewDiagRoot0 zDir zSize;
                             viewOrg = plusScaled (frustumCenter g frustum) viewDiagRoot (- (1 / 2));
                             viewDelta =
                               snd (validateViewDelta (extentLimits s)
                                      (multiplyVector viewRot viewDiagRoot))
                         in (Success,
                             setRotation (setExtents (setOrigin s viewOrg) viewDelta) viewRot)))))"

text \<open>\<^verbatim>\<open>ViewState3d.setupFromFrustum\<close>, the override that also solves for the camera.\<close>

definition ViewState3d_setupFromFrustum ::
  "'m Deps \<Rightarrow> ViewState3d \<Rightarrow> Frustum \<Rightarrow> ViewStatus \<times> ViewState3d" where
  "ViewState3d_setupFromFrustum g s frustum =
     (case ViewState_setupFromFrustum g s frustum of
        (stat, s0) \<Rightarrow>
          if Success \<noteq> stat then (stat, s0)
          else
           (let s1 = turnCameraOff s0;
                xBack = distance (LeftBottomRear frustum) (RightBottomRear frustum);
                xFront = distance (LeftBottomFront frustum) (RightBottomFront frustum);
                flatViewFractionTolerance = 1 / 1000000
            in if xFront > xBack * (1 + flatViewFractionTolerance) then (InvalidWindow, s1)
               else
                (let compression = xFront / xBack
                 in if compression \<ge> 1 - flatViewFractionTolerance then (Success, s1)
                    else
                     (let viewOrg0 = LeftBottomRear frustum;
                          viewDelta0 = getExtents s1;
                          zDir = getZVector s1;
                          frustumZ = vectorTo viewOrg0 (LeftBottomFront frustum);
                          frustOrgToEye = scale3 frustumZ (1 / (1 - compression));
                          eyePoint = plus3 viewOrg0 frustOrgToEye;
                          backDistance = dotProduct frustOrgToEye zDir;
                          focusDistance = backDistance - vz viewDelta0 / 2;
                          focalFraction = focusDistance / backDistance;
                          viewOrg = plus2Scaled eyePoint frustOrgToEye (- focalFraction)
                                      zDir (focusDistance - backDistance);
                          viewDelta = Vec3 (vx viewDelta0 * focalFraction)
                                        (vy viewDelta0 * focalFraction) (vz viewDelta0);
                          s2 = setEyePoint s1 eyePoint;
                          s3 = setFocusDistance s2 focusDistance;
                          s4 = setOrigin s3 viewOrg;
                          s5 = setExtents s4 viewDelta;
                          s6 = setLensAngle s5 (calcLensAngle s5)
                      in (Success, enableCamera s6)))))"

section \<open>Camera positioning\<close>

definition lookAt ::
  "'m Deps \<Rightarrow> ViewState3d \<Rightarrow> vec3 \<Rightarrow> vec3 \<Rightarrow> vec3 \<Rightarrow> (real \<times> real) option \<Rightarrow>
     real option \<Rightarrow> real option \<Rightarrow> ViewStatus \<times> ViewState3d" where
  "lookAt g s eyePoint targetPoint upVector newExtents frontDistance backDistance =
     (case normalize_vec g upVector of
        None \<Rightarrow> (InvalidUpVector, s)
      | Some yVec0 \<Rightarrow>
         (let (zVec, focusDist') = normalizeWithLength g (createStartEnd targetPoint eyePoint);
              minFrontDist = minimumFrontDistance s
          in if focusDist' \<le> minFrontDist then (InvalidTargetPoint, s)
             else
              (let (xVec, xMag) = normalizeWithLength g (crossProduct yVec0 zVec)
               in if xMag < smallMetricDistance g then (InvalidUpVector, s)
                  else
                   (let (yVec, yMag) = normalizeWithLength g (crossProduct zVec xVec)
                    in if yMag < smallMetricDistance g then (InvalidUpVector, s)
                       else
                        (let rotation' = createRows xVec yVec zVec;
                             backDistance0 = numberOr backDistance (getBackDistance s);
                             frontDistance0 = numberOr frontDistance (getFrontDistance s);
                             delta0 = (case newExtents of
                                         Some (ex, ey) \<Rightarrow> Vec3 \<bar>ex\<bar> \<bar>ey\<bar> (vz (extents s))
                                       | None \<Rightarrow> extents s);
                             frontDistance1 = max frontDistance0 (1 / 2 * oneMeter);
                             backDistance1 = max backDistance0 (focusDist' + 1 / 2 * oneMeter);
                             backDistance2 = (if backDistance1 < focusDist'
                                              then focusDist' + oneMillimeter else backDistance1);
                             frontDistance2 = (if frontDistance1 > focusDist'
                                               then focusDist' - minFrontDist else frontDistance1);
                             frontDistance3 = (if frontDistance2 < minFrontDist
                                               then minFrontDist else frontDistance2);
                             delta = Vec3 (vx delta0) (vy delta0) (backDistance2 - frontDistance3);
                             frontDelta = scale3 delta (frontDistance3 / focusDist');
                             stat = fst (validateViewDelta (extentLimits s) frontDelta)
                         in if Success \<noteq> stat then (stat, s)
                            else if vz delta > calculateMaxDepth delta zVec then (MaxDisplayDepth, s)
                            else
                             (let origin' = plus3Scaled eyePoint zVec (- backDistance2)
                                              xVec (- (1 / 2) * vx delta) yVec (- (1 / 2) * vy delta);
                                  s1 = setEyePoint s eyePoint;
                                  s2 = setRotation s1 rotation';
                                  s3 = setFocusDistance s2 focusDist';
                                  s4 = setOrigin s3 origin';
                                  s5 = setExtents s4 delta;
                                  s6 = setLensAngle s5 (calcLensAngle s5)
                              in (Success, enableCamera s6)))))))"

definition lookAtUsingLensAngle ::
  "'m Deps \<Rightarrow> ViewState3d \<Rightarrow> vec3 \<Rightarrow> vec3 \<Rightarrow> vec3 \<Rightarrow> real \<Rightarrow>
     real option \<Rightarrow> real option \<Rightarrow> ViewStatus \<times> ViewState3d" where
  "lookAtUsingLensAngle g s eyePoint targetPoint upVector fov frontDistance backDistance =
     (let focusDist' = magnitude (vectorTo eyePoint targetPoint)
      in if focusDist' \<le> oneMillimeter then (InvalidTargetPoint, s)
         else if fov < 1 / 10000 \<or> fov > pi then (InvalidLens, s)
         else
          (let extent = 2 * tan (fov / 2) * focusDist';
               longAxis = max (vx (extents s)) (vy (extents s));
               delta = (vx (extents s) * (extent / longAxis), vy (extents s) * (extent / longAxis))
           in lookAt g s eyePoint targetPoint upVector (Some delta) frontDistance backDistance))"

definition moveCameraWorld :: "'m Deps \<Rightarrow> ViewState3d \<Rightarrow> vec3 \<Rightarrow> ViewStatus \<times> ViewState3d" where
  "moveCameraWorld g s d =
     (if \<not> cameraOn s then (Success, s\<lparr>origin := plus3 (origin s) d\<rparr>)
      else
       (let newTarget = plus3 (getTargetPoint s) d;
            newEyePt = plus3 (getEyePoint s) d
        in lookAt g s newEyePt newTarget (getYVector s) None None None))"

definition moveCameraLocal :: "'m Deps \<Rightarrow> ViewState3d \<Rightarrow> vec3 \<Rightarrow> ViewStatus \<times> ViewState3d" where
  "moveCameraLocal g s d = moveCameraWorld g s (multiplyTransposeVector (getRotation s) d)"

definition rotateCameraWorld ::
  "'m Deps \<Rightarrow> ViewState3d \<Rightarrow> real \<Rightarrow> vec3 \<Rightarrow> vec3 option \<Rightarrow> ViewStatus \<times> ViewState3d" where
  "rotateCameraWorld g s angle axis aboutPt =
     (let about = (case aboutPt of Some p \<Rightarrow> p | None \<Rightarrow> getEyePoint s)
      in case createRotationAroundVector g axis angle of
           None \<Rightarrow> (InvalidUpVector, s)
         | Some rotation' \<Rightarrow>
            (let trans = createFixedPointAndMatrix about rotation';
                 newTarget = multiplyPoint3d trans (getTargetPoint s);
                 upVec = multiplyVector rotation' (getYVector s)
             in lookAt g s (getEyePoint s) newTarget upVec None None None))"

definition rotateCameraLocal ::
  "'m Deps \<Rightarrow> ViewState3d \<Rightarrow> real \<Rightarrow> vec3 \<Rightarrow> vec3 option \<Rightarrow> ViewStatus \<times> ViewState3d" where
  "rotateCameraLocal g s angle axis aboutPt =
     rotateCameraWorld g s angle (multiplyTransposeVector (getRotation s) axis) aboutPt"

definition centerEyePoint :: "ViewState3d \<Rightarrow> real option \<Rightarrow> ViewState3d" where
  "centerEyePoint s backDistance =
     (let half = scale3 (getExtents s) (1 / 2);
          eyePoint = Vec3 (vx half) (vy half) (numberOr backDistance (getBackDistance s));
          eye' = multiplyTransposeVector (getRotation s) eyePoint
      in s\<lparr>camera := Camera_setEyePoint (camera s) (plus3 (getOrigin s) eye')\<rparr>)"

definition verifyFocusPlane :: "ViewState3d \<Rightarrow> ViewState3d" where
  "verifyFocusPlane s =
     (if \<not> cameraOn s then s
      else
       (let backDist = getBackDistance s;
            frontDist = backDist - vz (extents s)
        in if backDist \<le> 0 \<or> frontDist \<le> 0 then
             (let tanAngle = tan (lens (camera s) / 2);
                  backDist' = vz (extents s) / tanAngle;
                  s1 = s\<lparr>camera := Camera_setFocusDistance (camera s) (backDist' / 2)\<rparr>
              in centerEyePoint s1 (Some backDist'))
           else
            (let focusDist0 = focusDist (camera s)
             in if focusDist0 > frontDist \<and> focusDist0 < backDist then s
                else
                 (let s1 = s\<lparr>camera :=
                             Camera_setFocusDistance (camera s) (vz (extents s) / 2 + frontDist)\<rparr>;
                      ratio = focusDist (camera s1) / focusDist0;
                      extents' = Vec3 (vx (extents s1) * ratio) (vy (extents s1) * ratio)
                                   (vz (extents s1));
                      rot = rotation s1;
                      origin' = plus3Scaled (eye (camera s1)) (rowZ rot) (- backDist)
                                  (rowX rot) (- (1 / 2) * vx extents')
                                  (rowY rot) (- (1 / 2) * vy extents')
                  in s1\<lparr>extents := extents', origin := origin'\<rparr>))))"

definition centerFocusDistance :: "'m Deps \<Rightarrow> ViewState3d \<Rightarrow> ViewState3d" where
  "centerFocusDistance g s =
     (let backDist = getBackDistance s;
          frontDist = getFrontDistance s;
          eye' = getEyePoint s;
          target = plusScaled eye' (getZVector s) (frontDist - backDist)
      in snd (lookAtUsingLensAngle g s eye' target (getYVector s) (getLensAngle s)
                (Some frontDist) (Some backDist)))"

section \<open>The world-to-NPC calculator\<close>

text \<open>
  The block of \<^verbatim>\<open>computeWorldToNpc\<close> that sets the clip planes of a camera view: from
  the eye-to-origin vector in view coordinates and \<^verbatim>\<open>delta.z\<close> it gives the final
  values of the locals \<^verbatim>\<open>eyeToOrigin\<close>, \<^verbatim>\<open>zBack\<close>, \<^verbatim>\<open>zFront\<close> and \<^verbatim>\<open>zDelta\<close>.
\<close>

definition clipPlanes :: "real \<Rightarrow> vec3 \<Rightarrow> real \<Rightarrow> vec3 \<times> real \<times> real \<times> real" where
  "clipPlanes nearScale eyeToOrigin0 zDelta0 =
     (let zBack0 = vz eyeToOrigin0;
          zFront0 = zBack0 + zDelta0
      in if zFront0 / zBack0 < nearScale then
           (let maximumBackClip = 10 * oneKilometer;
                zBack = (if - zBack0 > maximumBackClip then - maximumBackClip else zBack0);
                eyeToOrigin = (if - zBack0 > maximumBackClip
                               then Vec3 (vx eyeToOrigin0) (vy eyeToOrigin0) zBack
                               else eyeToOrigin0);
                zFront = zBack * nearScale;
                zDelta = zFront - vz eyeToOrigin
            in (eyeToOrigin, zBack, zFront, zDelta))
         else (eyeToOrigin0, zBack0, zFront0, zDelta0))"

definition computeWorldToNpc ::
  "'m Deps \<Rightarrow> ViewState3d \<Rightarrow> mat3 option \<Rightarrow> vec3 option \<Rightarrow> vec3 option \<Rightarrow> 'm option \<times> real" where
  "computeWorldToNpc g s viewRotArg inOriginArg deltaArg =
     (let viewRot = (case viewRotArg of Some r \<Rightarrow> r | None \<Rightarrow> getRotation s);
          xVector = rowX viewRot;
          yVector = rowY viewRot;
          zVector = rowZ viewRot;
          delta = (case deltaArg of Some d \<Rightarrow> d | None \<Rightarrow> getExtents s);
          inOrigin = (case inOriginArg of Some p \<Rightarrow> p | None \<Rightarrow> getOrigin s)
      in if cameraOn s then
           (let eyeToOrigin0 = multiplyVector viewRot (createStartEnd (eye (camera s)) inOrigin);
                focusDistance = focusDist (camera s);
                (eyeToOrigin, zBack, zFront, zDelta) =
                  clipPlanes (nearScale24 g) eyeToOrigin0 (vz delta);
                backFraction = - zBack / focusDistance;
                frontFraction = - zFront / focusDistance;
                frustFraction = frontFraction / backFraction;
                xExtent = scale3 xVector (vx delta * backFraction);
                yExtent = scale3 yVector (vy delta * backFraction);
                zExtent = multiplyTransposeVector viewRot
                            (Vec3 (vx eyeToOrigin * (frontFraction - backFraction))
                                  (vy eyeToOrigin * (frontFraction - backFraction)) zDelta);
                origin' = plus3 (multiplyTransposeVector viewRot
                                   (Vec3 (vx eyeToOrigin * backFraction)
                                         (vy eyeToOrigin * backFraction) (vz eyeToOrigin)))
                                (eye (camera s))
            in (createVectorFrustum g origin' xExtent yExtent zExtent frustFraction, frustFraction))
         else
           (createVectorFrustum g inOrigin (scale3 xVector (vx delta)) (scale3 yVector (vy delta))
              (scale3 zVector (vz delta)) 1, 1))"

section \<open>Aspect ratio and volume fitting\<close>

text \<open>
  \<^verbatim>\<open>adjustAspectRatio\<close> returns nothing; the model returns the new state, or \<open>None\<close>
  when the non-null assertion on \<^verbatim>\<open>trans.inverse()\<close> fails and the call throws.
\<close>

definition adjustAspectRatio :: "'m Deps \<Rightarrow> ViewState3d \<Rightarrow> real \<Rightarrow> ViewState3d option" where
  "adjustAspectRatio g s windowAspect0 =
     (let extents0 = getExtents s;
          viewAspect = vx extents0 / vy extents0;
          windowAspect = windowAspect0 * getAspectRatioSkew s
      in if \<bar>1 - viewAspect / windowAspect\<bar> < 1 / 1000000000 then Some s
         else
          (let oldDelta = extents0;
               extents' = (if viewAspect > windowAspect
                           then Vec3 (vx extents0) (vx extents0 / windowAspect) (vz extents0)
                           else Vec3 (vy extents0 * windowAspect) (vy extents0) (vz extents0));
               trans = createOriginAndMatrix zero3 (getRotation s);
               newOrigin0 = multiplyPoint3d trans (getOrigin s);
               newOrigin = Vec3 (vx newOrigin0 + (vx oldDelta - vx extents') / 2)
                             (vy newOrigin0 + (vy oldDelta - vy extents') / 2) (vz newOrigin0)
           in case Transform_inverse g trans of
                None \<Rightarrow> None
              | Some transInverse \<Rightarrow>
                  Some (setExtents (setOrigin s (multiplyPoint3d transInverse newOrigin)) extents')))"

text \<open>The class \<^verbatim>\<open>MarginPercent\<close> (fields prefixed); its constructor limits each margin
  to 0 .. 0.25.\<close>

record MarginPercent =
  margin_left :: real
  margin_top :: real
  margin_right :: real
  margin_bottom :: real

definition limitMargin :: "real \<Rightarrow> real" where
  "limitMargin val = max 0 (min (1 / 4) val)"

definition new_MarginPercent :: "real \<Rightarrow> real \<Rightarrow> real \<Rightarrow> real \<Rightarrow> MarginPercent" where
  "new_MarginPercent l t r b =
     \<lparr>margin_left = limitMargin l, margin_top = limitMargin t,
      margin_right = limitMargin r, margin_bottom = limitMargin b\<rparr>"

text \<open>
  \<^verbatim>\<open>lookAtViewAlignedVolume\<close> on a \<^verbatim>\<open>ViewState3d\<close>.  The volume is the pair of its
  low and high corners.  The result is \<open>None\<close> when \<^verbatim>\<open>adjustAspectRatio\<close> throws.
\<close>

definition lookAtViewAlignedVolume ::
  "'m Deps \<Rightarrow> ViewState3d \<Rightarrow> vec3 \<times> vec3 \<Rightarrow> real option \<Rightarrow> MarginPercent option \<Rightarrow>
     ViewState3d option" where
  "lookAtViewAlignedVolume g s volume aspect margin =
     (if isNull g volume then Some s
      else
       (let viewRot = getRotation s;
            low = fst volume;
            newDelta0 = createStartEnd (fst volume) (snd volume);
            minimumDepth = oneMillimeter;
            newOrigin1 = (if vz newDelta0 < minimumDepth
                          then Vec3 (vx low) (vy low) (vz low - (minimumDepth - vz newDelta0) / 2)
                          else low);
            newDelta1 = (if vz newDelta0 < minimumDepth
                         then Vec3 (vx newDelta0) (vy newDelta0) minimumDepth else newDelta0);
            isCameraOn = cameraOn s;
            (newOrigin2, newDelta2, origNewDelta) =
              (if isCameraOn then (newOrigin1, newDelta1, newDelta1)
               else case margin of
                      Some mg \<Rightarrow>
                        (let wPercent = margin_left mg + margin_right mg;
                             hPercent = margin_top mg + margin_bottom mg;
                             marginHorizontal = wPercent / (1 - wPercent) * vx newDelta1;
                             marginVert = hPercent / (1 - hPercent) * vy newDelta1;
                             marginLeft = margin_left mg / (1 - wPercent) * vx newDelta1;
                             marginBottom = margin_bottom mg / (1 - hPercent) * vy newDelta1;
                             org = Vec3 (vx newOrigin1 - marginLeft) (vy newOrigin1 - marginBottom)
                                     (vz newOrigin1);
                             dlt = Vec3 (vx newDelta1 + marginHorizontal)
                                     (vy newDelta1 + marginVert) (vz newDelta1)
                         in (org, dlt, dlt))
                    | None \<Rightarrow> (newOrigin1, scale3 newDelta1 (104 / 100), newDelta1));
            newDelta3 = (if isCameraOn \<and> magnitudeXY newDelta2 > vz newDelta2
                         then Vec3 (vx newDelta2) (vy newDelta2) (magnitudeXY newDelta2)
                         else newDelta2);
            newDelta4 = snd (validateViewDelta (extentLimits s) newDelta3);
            s1 = setExtents s newDelta4
        in case (if numberOr aspect 0 \<noteq> 0 then adjustAspectRatio g s1 (numberOr aspect 0)
                 else Some s1) of
             None \<Rightarrow> None
           | Some s2 \<Rightarrow>
              (let newDelta = getExtents s2;
                   newOrigin = Vec3 (vx newOrigin2 - (vx newDelta - vx origNewDelta) / 2)
                                 (vy newOrigin2 - (vy newDelta - vy origNewDelta) / 2)
                                 (vz newOrigin2 - (vz newDelta - vz origNewDelta) / 2);
                   s3 = setOrigin s2 (multiplyTransposeVector viewRot newOrigin);
                   cameraDef = validateLens g (camera s3);
                   frontDist = max (vx newDelta) (vy newDelta) / (2 * tan (lens cameraDef / 2));
                   backDist = frontDist + vz newDelta;
                   s4 = s3\<lparr>camera := Camera_setFocusDistance cameraDef frontDist\<rparr>;
                   s5 = centerEyePoint s4 (Some backDist)
               in Some (verifyFocusPlane s5))))"

section \<open>A reference instance of the missing operations\<close>

text \<open>
  Modelled from the spec: one instance of \<open>Deps\<close>, the exact Euclidean reading of
  what the spec says of each operation.  It is used to run the functions above on
  concrete inputs; every general theorem below holds for all instances.
  \<^item> \<^verbatim>\<open>normalize\<close> and \<^verbatim>\<open>normalizeWithLength\<close> fail (no vector, length 0) on a vector
    shorter than \<open>smallMetricDistance\<close>;
  \<^item> \<^verbatim>\<open>createRigidFromColumns\<close> is the Gram-Schmidt construction in the order X, Y, Z,
    failing when X and Y are degenerate or parallel;
  \<^item> \<^verbatim>\<open>inverse\<close> is the inverse by cofactors, failing on a singular matrix;
  \<^item> \<^verbatim>\<open>createRotationAroundVector\<close> is the rotation about the normalised axis, failing
    on an axis that cannot be normalised;
  \<^item> \<^verbatim>\<open>adjustToStandardRotation\<close> leaves its matrix as it is (no snapping);
  \<^item> \<^verbatim>\<open>fixPointOrder\<close> exchanges left and right corners of a left-handed box;
  \<^item> the centre of a frustum is the midpoint of its left-bottom-rear and
    right-top-front corners;
  \<^item> \<^verbatim>\<open>createVectorFrustum\<close> keeps its arguments and fails on degenerate extents;
  \<^item> \<^verbatim>\<open>validateLens\<close> replaces a lens angle outside 0.0001 .. \<open>\<pi>\<close> by \<open>\<pi>/2\<close>;
  \<^item> a range is null when its high corner is below its low corner in some axis.
\<close>

definition ref_normalize :: "vec3 \<Rightarrow> vec3 option" where
  "ref_normalize v =
     (if magnitude v < 1 / 1000000 then None else Some (scale3 v (1 / magnitude v)))"

definition ref_normalizeWithLength :: "vec3 \<Rightarrow> vec3 \<times> real" where
  "ref_normalizeWithLength v =
     (if magnitude v < 1 / 1000000 then (Vec3 1 0 0, 0)
      else (scale3 v (1 / magnitude v), magnitude v))"

definition ref_createRigidFromColumns :: "vec3 \<Rightarrow> vec3 \<Rightarrow> mat3 option" where
  "ref_createRigidFromColumns a b =
     (case ref_normalize a of
        None \<Rightarrow> None
      | Some x \<Rightarrow>
         (case ref_normalize (crossProduct a b) of
            None \<Rightarrow> None
          | Some z \<Rightarrow> Some (transpose3 (Mat3 x (crossProduct z x) z))))"

definition ref_inverse :: "mat3 \<Rightarrow> mat3 option" where
  "ref_inverse m =
     (if determinant m = 0 then None
      else Some (transpose3
             (Mat3 (scale3 (crossProduct (rowY m) (rowZ m)) (1 / determinant m))
                   (scale3 (crossProduct (rowZ m) (rowX m)) (1 / determinant m))
                   (scale3 (crossProduct (rowX m) (rowY m)) (1 / determinant m)))))"

definition ref_createRotationAroundVector :: "vec3 \<Rightarrow> real \<Rightarrow> mat3 option" where
  "ref_createRotationAroundVector axis angle =
     (case ref_normalize axis of
        None \<Rightarrow> None
      | Some u \<Rightarrow>
         (let c = cos angle; sn = sin angle; k = 1 - cos angle
          in Some (Mat3
               (Vec3 (c + k * vx u * vx u) (k * vx u * vy u - sn * vz u) (k * vx u * vz u + sn * vy u))
               (Vec3 (k * vy u * vx u + sn * vz u) (c + k * vy u * vy u) (k * vy u * vz u - sn * vx u))
               (Vec3 (k * vz u * vx u - sn * vy u) (k * vz u * vy u + sn * vx u) (c + k * vz u * vz u)))))"

definition ref_fixPointOrder :: "Frustum \<Rightarrow> Frustum" where
  "ref_fixPointOrder f =
     (if dotProduct (minus3 (RightBottomRear f) (LeftBottomRear f))
           (crossProduct (minus3 (LeftTopRear f) (LeftBottomRear f))
              (minus3 (LeftBottomFront f) (LeftBottomRear f))) < 0
      then \<lparr>LeftBottomRear = RightBottomRear f, RightBottomRear = LeftBottomRear f,
            LeftTopRear = RightTopRear f, RightTopRear = LeftTopRear f,
            LeftBottomFront = RightBottomFront f, RightBottomFront = LeftBottomFront f,
            LeftTopFront = RightTopFront f, RightTopFront = LeftTopFront f\<rparr>
      else f)"

definition ref_frustumCenter :: "Frustum \<Rightarrow> vec3" where
  "ref_frustumCenter f = scale3 (plus3 (LeftBottomRear f) (RightTopFront f)) (1 / 2)"

type_synonym Map4d = "vec3 \<times> vec3 \<times> vec3 \<times> vec3 \<times> real"

definition ref_createVectorFrustum ::
  "vec3 \<Rightarrow> vec3 \<Rightarrow> vec3 \<Rightarrow> vec3 \<Rightarrow> real \<Rightarrow> Map4d option" where
  "ref_createVectorFrustum p xExtent yExtent zExtent fraction =
     (if dotProduct xExtent (crossProduct yExtent zExtent) = 0 then None
      else Some (p, xExtent, yExtent, zExtent, fraction))"

definition ref_validateLens :: "Camera \<Rightarrow> Camera" where
  "ref_validateLens c = (if 1 / 10000 < lens c \<and> lens c < pi then c else c\<lparr>lens := pi / 2\<rparr>)"

definition ref_isNull :: "vec3 \<times> vec3 \<Rightarrow> bool" where
  "ref_isNull r =
     (vx (snd r) < vx (fst r) \<or> vy (snd r) < vy (fst r) \<or> vz (snd r) < vz (fst r))"

definition refDeps :: "Map4d Deps" where
  "refDeps =
     \<lparr>smallMetricDistance = 1 / 1000000,
      nearScale24 = 3 / 10000,
      normalize_vec = ref_normalize,
      normalizeWithLength = ref_normalizeWithLength,
      createRigidFromColumns = ref_createRigidFromColumns,
      matrixInverse = ref_inverse,
      createRotationAroundVector = ref_createRotationAroundVector,
      adjustToStandardRotation = (\<lambda>m. m),
      fixPointOrder = ref_fixPointOrder,
      frustumCenter = ref_frustumCenter,
      createVectorFrustum = ref_createVectorFrustum,
      validateLens = ref_validateLens,
      isNull = ref_isNull\<rparr>"

text \<open>
  A spatial view used in the examples: identity rotation, a box of 10 by 10 by 1 at the
  world origin, the camera off, the default limits of a \<^verbatim>\<open>SpatialViewState\<close> (one
  millimetre to the diameter of the earth, 12742 km) and no aspect-ratio skew.
\<close>

definition identity3 :: mat3 where
  "identity3 = Mat3 (Vec3 1 0 0) (Vec3 0 1 0) (Vec3 0 0 1)"

definition spatialLimits :: ExtentLimits where
  "spatialLimits = \<lparr>min_limit = oneMillimeter, max_limit = 12742 * oneKilometer\<rparr>"

definition view0 :: ViewState3d where
  "view0 =
     \<lparr>cameraOn = False,
      origin = Vec3 0 0 0,
      extents = Vec3 10 10 1,
      rotation = identity3,
      camera = \<lparr>lens = pi / 2, focusDist = 1, eye = Vec3 5 5 10\<rparr>,
      forceMinFrontDist = 0,
      extentLimitsOverride = None,
      defaultExtentLimits = spatialLimits,
      aspectSkew = None,
      cameraSupported = True\<rparr>"

text \<open>
  A frustum whose rear face is the unit square and whose front face, one unit in front
  of it, is twice as wide: the front X-span is 2, the rear X-span 1.
\<close>

definition explodingFrustum :: Frustum where
  "explodingFrustum =
     \<lparr>LeftBottomRear = Vec3 0 0 0, RightBottomRear = Vec3 1 0 0,
      LeftTopRear = Vec3 0 1 0, RightTopRear = Vec3 1 1 0,
      LeftBottomFront = Vec3 (- (1 / 2)) (- (1 / 2)) 1, RightBottomFront = Vec3 (3 / 2) (- (1 / 2)) 1,
      LeftTopFront = Vec3 (- (1 / 2)) (3 / 2) 1, RightTopFront = Vec3 (3 / 2) (3 / 2) 1\<rparr>"

text \<open>The unit cube as a frustum.\<close>

definition unitFrustum :: Frustum where
  "unitFrustum =
     \<lparr>LeftBottomRear = Vec3 0 0 0, RightBottomRear = Vec3 1 0 0,
      LeftTopRear = Vec3 0 1 0, RightTopRear = Vec3 1 1 0,
      LeftBottomFront = Vec3 0 0 1, RightBottomFront = Vec3 1 0 1,
      LeftTopFront = Vec3 0 1 1, RightTopFront = Vec3 1 1 1\<rparr>"

section \<open>Rigid rotations and sequences of calls\<close>

text \<open>
  A rotation is rigid when its rows have unit length and are mutually orthogonal and its
  determinant is 1 or -1; \<open>rigidWithin tol\<close> is the same up to a tolerance.
\<close>

definition orthonormalRows :: "mat3 \<Rightarrow> bool" where
  "orthonormalRows m =
     (dotProduct (rowX m) (rowX m) = 1 \<and> dotProduct (rowY m) (rowY m) = 1 \<and>
      dotProduct (rowZ m) (rowZ m) = 1 \<and> dotProduct (rowX m) (rowY m) = 0 \<and>
      dotProduct (rowX m) (rowZ m) = 0 \<and> dotProduct (rowY m) (rowZ m) = 0)"

definition isRigid :: "mat3 \<Rightarrow> bool" where
  "isRigid m = (orthonormalRows m \<and> \<bar>determinant m\<bar> = 1)"

definition rigidWithin :: "real \<Rightarrow> mat3 \<Rightarrow> bool" where
  "rigidWithin tol m =
     (\<bar>\<bar>determinant m\<bar> - 1\<bar> \<le> tol \<and>
      \<bar>dotProduct (rowX m) (rowY m)\<bar> \<le> tol \<and> \<bar>dotProduct (rowX m) (rowZ m)\<bar> \<le> tol \<and>
      \<bar>dotProduct (rowY m) (rowZ m)\<bar> \<le> tol \<and>
      \<bar>magnitude (rowX m) - 1\<bar> \<le> tol \<and> \<bar>magnitude (rowY m) - 1\<bar> \<le> tol \<and>
      \<bar>magnitude (rowZ m) - 1\<bar> \<le> tol)"

text \<open>
  What the spec says of the missing vector and matrix operations, as far as rigidity
  goes: the tolerance is positive; \<^verbatim>\<open>normalizeWithLength\<close>, when it reports a positive
  length, returns the vector divided by its length; \<^verbatim>\<open>createRigidFromColumns\<close> returns
  rigid matrices only; snapping to a standard view and inverting keep a rigid matrix
  rigid.
\<close>

definition rigidGeometry :: "'m Deps \<Rightarrow> bool" where
  "rigidGeometry g =
     (0 < smallMetricDistance g \<and>
      (\<forall>v. 0 < snd (normalizeWithLength g v) \<longrightarrow>
            0 < magnitude v \<and> fst (normalizeWithLength g v) = scale3 v (1 / magnitude v)) \<and>
      (\<forall>a b m. createRigidFromColumns g a b = Some m \<longrightarrow> isRigid m) \<and>
      (\<forall>m. isRigid m \<longrightarrow> isRigid (adjustToStandardRotation g m)) \<and>
      (\<forall>m n. isRigid m \<longrightarrow> matrixInverse g m = Some n \<longrightarrow> isRigid n))"

text \<open>
  The three calls of the rigidity invariant, and a sequence of them run from a view.
  \<^verbatim>\<open>setRotation\<close> documents that its argument must be orthonormal; \<open>rigidArgument\<close>
  says so of a call.
\<close>

datatype ViewOp =
    SetRotation mat3
  | LookAt vec3 vec3 vec3 "(real \<times> real) option" "real option" "real option"
  | SetupFromFrustum Frustum

fun applyOp :: "'m Deps \<Rightarrow> ViewState3d \<Rightarrow> ViewOp \<Rightarrow> ViewState3d" where
  "applyOp g s (SetRotation rot) = setRotation s rot"
| "applyOp g s (LookAt eyePoint targetPoint upVector newExtents frontDistance backDistance) =
     snd (lookAt g s eyePoint targetPoint upVector newExtents frontDistance backDistance)"
| "applyOp g s (SetupFromFrustum frustum) = snd (ViewState3d_setupFromFrustum g s frustum)"

fun runOps :: "'m Deps \<Rightarrow> ViewState3d \<Rightarrow> ViewOp list \<Rightarrow> ViewState3d" where
  "runOps g s [] = s"
| "runOps g s (op # ops) = runOps g (applyOp g s op) ops"

fun rigidArgument :: "ViewOp \<Rightarrow> bool" where
  "rigidArgument (SetRotation rot) = isRigid rot"
| "rigidArgument (LookAt eyePoint targetPoint upVector newExtents frontDistance backDistance) = True"
| "rigidArgument (SetupFromFrustum frustum) = True"

text \<open>The quarter turn about Z.\<close>

definition quarterTurn :: mat3 where
  "quarterTurn = Mat3 (Vec3 0 1 0) (Vec3 (- 1) 0 0) (Vec3 0 0 1)"

text \<open>
  A camera view whose rotation is a quarter turn about Z and whose origin is (5, 5, 5).
\<close>

definition view1 :: ViewState3d where
  "view1 = view0\<lparr>cameraOn := True, origin := Vec3 5 5 5, rotation := quarterTurn\<rparr>"

text \<open>
  A camera view whose eye is 20 km behind the back plane and whose front plane is
  10 cm from the eye.
\<close>

definition farView :: ViewState3d where
  "farView = view0\<lparr>cameraOn := True, extents := Vec3 10 10 (199999 / 10),
                   camera := \<lparr>lens = pi / 2, focusDist = 100, eye = Vec3 5 5 20000\<rparr>\<rparr>"

text \<open>
  An orthographic view (\<^verbatim>\<open>OrthographicViewState\<close>, whose \<^verbatim>\<open>supportsCamera\<close> answers
  false) with the extents of the scenario.
\<close>

definition orthoView :: ViewState3d where
  "orthoView = view0\<lparr>cameraSupported := False\<rparr>"

text \<open>
  A view with the extents of the scenario whose stored eye point is \<open>2 \<times> 10\<^sup>9\<close> metres
  in front of the back plane.
\<close>

definition farEyeView :: ViewState3d where
  "farEyeView = view0\<lparr>camera := \<lparr>lens = pi / 2, focusDist = 1, eye = Vec3 5 5 2000000000\<rparr>\<rparr>"

section \<open>Unfolding rules\<close>

lemmas vec_defs = zero3_def plus3_def minus3_def scale3_def dotProduct_def crossProduct_def
  magnitude_def magnitudeXY_def distance_def vectorTo_def createStartEnd_def plusScaled_def
  plus2Scaled_def plus3Scaled_def createRows_def columnX_def columnY_def columnZ_def
  transpose3_def multiplyVector_def multiplyTransposeVector_def determinant_def

lemmas ref_defs = refDeps_def ref_normalize_def ref_normalizeWithLength_def
  ref_createRigidFromColumns_def ref_inverse_def ref_fixPointOrder_def ref_frustumCenter_def
  ref_createRotationAroundVector_def

lemmas view_defs = extentLimits_def getOrigin_def getExtents_def getRotation_def setOrigin_def
  setExtents_def setRotation_def enableCamera_def turnCameraOff_def minimumFrontDistance_def
  getXVector_def getYVector_def getZVector_def getEyePoint_def getLensAngle_def
  getFocusDistance_def setLensAngle_def setEyePoint_def setFocusDistance_def
  Camera_setEyePoint_def Camera_setFocusDistance_def Camera_setLensAngle_def

lemmas example_defs = view0_def identity3_def spatialLimits_def oneMillimeter_def
  oneCentimeter_def oneMeter_def oneKilometer_def explodingFrustum_def unitFrustum_def view1_def
  farView_def quarterTurn_def

section \<open>Extent clamping\<close>

lemma validateViewDelta_status:
  "fst (validateViewDelta limit delta) \<in> {Success, MinWindow, MaxWindow}"
  by (simp add: validateViewDelta_def limitWindowSize_def Let_def split: prod.splits)

text \<open>
  Claim C4.  Let the limits be well formed (\<open>min \<le> max\<close>).  \<^verbatim>\<open>validateViewDelta\<close> sets
  every component of \<^verbatim>\<open>delta\<close> that is below \<^verbatim>\<open>extentLimits.min\<close> to that minimum and
  every component above \<^verbatim>\<open>extentLimits.max\<close> to that maximum.  The status is
  \<^verbatim>\<open>MinWindow\<close> or \<^verbatim>\<open>MaxWindow\<close> when X or Y was out of range (Y, limited last, decides
  when both were), and \<^verbatim>\<open>Success\<close> when X and Y were in range, whatever Z was: an
  out-of-range Z alone is limited with status \<^verbatim>\<open>Success\<close>.
\<close>

theorem validateViewDelta_clamps:
  assumes wf: "min_limit limit \<le> max_limit limit"
    and run: "validateViewDelta limit delta = (status, delta')"
  shows "(vx delta < min_limit limit \<longrightarrow> vx delta' = min_limit limit) \<and>
         (vx delta > max_limit limit \<longrightarrow> vx delta' = max_limit limit) \<and>
         (vy delta < min_limit limit \<longrightarrow> vy delta' = min_limit limit) \<and>
         (vy delta > max_limit limit \<longrightarrow> vy delta' = max_limit limit) \<and>
         (vz delta < min_limit limit \<longrightarrow> vz delta' = min_limit limit) \<and>
         (vz delta > max_limit limit \<longrightarrow> vz delta' = max_limit limit) \<and>
         (vy delta < min_limit limit \<longrightarrow> status = MinWindow) \<and>
         (vy delta > max_limit limit \<longrightarrow> status = MaxWindow) \<and>
         (min_limit limit \<le> vy delta \<and> vy delta \<le> max_limit limit \<and> vx delta < min_limit limit
            \<longrightarrow> status = MinWindow) \<and>
         (min_limit limit \<le> vy delta \<and> vy delta \<le> max_limit limit \<and> vx delta > max_limit limit
            \<longrightarrow> status = MaxWindow) \<and>
         (min_limit limit \<le> vx delta \<and> vx delta \<le> max_limit limit \<and>
          min_limit limit \<le> vy delta \<and> vy delta \<le> max_limit limit \<longrightarrow> status = Success)"
  using wf run
  by (auto simp: validateViewDelta_def limitWindowSize_def Let_def split: if_splits)

theorem validateViewDelta_clamps_witness:
  "validateViewDelta \<lparr>min_limit = 1, max_limit = 10\<rparr> (Vec3 (1 / 2) 20 100) = (MaxWindow, Vec3 1 10 10) \<and>
   validateViewDelta \<lparr>min_limit = 1, max_limit = 10\<rparr> (Vec3 20 (1 / 2) 5) = (MinWindow, Vec3 10 1 5) \<and>
   validateViewDelta \<lparr>min_limit = 1, max_limit = 10\<rparr> (Vec3 2 3 (1 / 2)) = (Success, Vec3 2 3 1)"
proof -
  have wf: "min_limit \<lparr>min_limit = 1, max_limit = 10\<rparr> \<le> max_limit \<lparr>min_limit = 1, max_limit = (10::real)\<rparr>"
    by simp
  obtain st1 d1 where r1: "validateViewDelta \<lparr>min_limit = 1, max_limit = 10\<rparr> (Vec3 (1 / 2) 20 100) = (st1, d1)"
    by (cases "validateViewDelta \<lparr>min_limit = 1, max_limit = 10\<rparr> (Vec3 (1 / 2) 20 100)")
  obtain st2 d2 where r2: "validateViewDelta \<lparr>min_limit = 1, max_limit = 10\<rparr> (Vec3 20 (1 / 2) 5) = (st2, d2)"
    by (cases "validateViewDelta \<lparr>min_limit = 1, max_limit = 10\<rparr> (Vec3 20 (1 / 2) 5)")
  obtain st3 d3 where r3: "validateViewDelta \<lparr>min_limit = 1, max_limit = 10\<rparr> (Vec3 2 3 (1 / 2)) = (st3, d3)"
    by (cases "validateViewDelta \<lparr>min_limit = 1, max_limit = 10\<rparr> (Vec3 2 3 (1 / 2))")
  have "st1 = MaxWindow \<and> d1 = Vec3 1 10 10"
    using validateViewDelta_clamps [OF wf r1] by (cases d1) simp
  moreover have "st2 = MinWindow \<and> d2 = Vec3 10 1 5"
    using validateViewDelta_clamps [OF wf r2] r2
    by (cases d2) (simp add: validateViewDelta_def limitWindowSize_def)
  moreover have "st3 = Success \<and> d3 = Vec3 2 3 1"
    using validateViewDelta_clamps [OF wf r3] r3
    by (cases d3) (simp add: validateViewDelta_def limitWindowSize_def)
  ultimately show ?thesis using r1 r2 r3 by simp
qed

section \<open>The solver's status and its writes\<close>

lemma ViewState_setupFromFrustum_status:
  "fst (ViewState_setupFromFrustum g s f) = Success \<or>
   ViewState_setupFromFrustum g s f = (InvalidWindow, s)"
  by (simp add: ViewState_setupFromFrustum_def Let_def split: option.splits)

text \<open>
  Claim C9.  When the base \<^verbatim>\<open>setupFromFrustum\<close> gets past its three \<^verbatim>\<open>InvalidWindow\<close>
  checks (the rigid basis exists, its inverse exists, the frustum is not left-handed),
  it returns \<^verbatim>\<open>Success\<close>, whatever \<^verbatim>\<open>validateViewDelta\<close> returned: the extents it
  stores are the limited ones and the status of the limiting is dropped.  The
  hypotheses name the locals of the function.
\<close>

theorem setupFromFrustum_clamp_suppressed:
  assumes fr: "fr = fixPointOrder g inFrustum"
    and fx: "frustumX = minus3 (RightBottomRear fr) (LeftBottomRear fr)"
    and fy: "frustumY = minus3 (LeftTopRear fr) (LeftBottomRear fr)"
    and fz: "frustumZ = minus3 (LeftBottomFront fr) (LeftBottomRear fr)"
    and rigid: "createRigidFromColumns g frustumX frustumY = Some rigid"
    and fm: "frustMatrix = adjustToStandardRotation g rigid"
    and inv: "matrixInverse g frustMatrix = Some viewRot"
    and hand: "0 \<le> dotProduct (columnZ frustMatrix) frustumZ"
    and diag: "viewDiagRoot =
                 plusScaled (plus2Scaled zero3 (columnX frustMatrix) (dotProduct (columnX frustMatrix) frustumX)
                    (columnY frustMatrix) (dotProduct (columnY frustMatrix) frustumY))
                   (columnZ frustMatrix) (dotProduct (columnZ frustMatrix) frustumZ)"
  shows "fst (ViewState_setupFromFrustum g s inFrustum) = Success \<and>
         extents (snd (ViewState_setupFromFrustum g s inFrustum)) =
           snd (validateViewDelta (extentLimits s) (multiplyVector viewRot viewDiagRoot)) \<and>
         rotation (snd (ViewState_setupFromFrustum g s inFrustum)) = viewRot"
  using assms
  by (simp add: ViewState_setupFromFrustum_def Let_def setRotation_def setExtents_def setOrigin_def)

theorem setupFromFrustum_clamp_suppressed_witness:
  "fst (validateViewDelta \<lparr>min_limit = 1 / 1000, max_limit = 1 / 2\<rparr> (Vec3 1 1 1)) = MaxWindow \<and>
   fst (ViewState_setupFromFrustum refDeps
          (view0\<lparr>extentLimitsOverride := Some \<lparr>min_limit = 1 / 1000, max_limit = 1 / 2\<rparr>\<rparr>)
          unitFrustum) = Success \<and>
   extents (snd (ViewState_setupFromFrustum refDeps
          (view0\<lparr>extentLimitsOverride := Some \<lparr>min_limit = 1 / 1000, max_limit = 1 / 2\<rparr>\<rparr>)
          unitFrustum)) = Vec3 (1 / 2) (1 / 2) (1 / 2)"
proof -
  let ?s = "view0\<lparr>extentLimitsOverride := Some \<lparr>min_limit = 1 / 1000, max_limit = 1 / 2\<rparr>\<rparr>"
  have fr: "unitFrustum = fixPointOrder refDeps unitFrustum"
    by (simp add: ref_defs vec_defs example_defs)
  have rigid: "createRigidFromColumns refDeps
                 (minus3 (RightBottomRear unitFrustum) (LeftBottomRear unitFrustum))
                 (minus3 (LeftTopRear unitFrustum) (LeftBottomRear unitFrustum)) = Some identity3"
    by (simp add: ref_defs vec_defs example_defs)
  have fm: "identity3 = adjustToStandardRotation refDeps identity3"
    by (simp add: ref_defs)
  have inv: "matrixInverse refDeps identity3 = Some identity3"
    by (simp add: ref_defs vec_defs example_defs)
  have hand: "0 \<le> dotProduct (columnZ identity3)
                  (minus3 (LeftBottomFront unitFrustum) (LeftBottomRear unitFrustum))"
    by (simp add: vec_defs example_defs)
  have diag: "Vec3 1 1 1 =
      plusScaled (plus2Scaled zero3 (columnX identity3)
          (dotProduct (columnX identity3) (minus3 (RightBottomRear unitFrustum) (LeftBottomRear unitFrustum)))
          (columnY identity3)
          (dotProduct (columnY identity3) (minus3 (LeftTopRear unitFrustum) (LeftBottomRear unitFrustum))))
        (columnZ identity3)
        (dotProduct (columnZ identity3) (minus3 (LeftBottomFront unitFrustum) (LeftBottomRear unitFrustum)))"
    by (simp add: vec_defs example_defs)
  have lim: "extentLimits ?s = \<lparr>min_limit = 1 / 1000, max_limit = 1 / 2\<rparr>"
    by (simp add: extentLimits_def)
  have mv: "multiplyVector identity3 (Vec3 1 1 1) = Vec3 1 1 1"
    by (simp add: vec_defs example_defs)
  have v: "validateViewDelta \<lparr>min_limit = 1 / 1000, max_limit = 1 / 2\<rparr> (Vec3 1 1 1) =
             (MaxWindow, Vec3 (1 / 2) (1 / 2) (1 / 2))"
    by (simp add: validateViewDelta_def limitWindowSize_def)
  show ?thesis
    using setupFromFrustum_clamp_suppressed [OF fr refl refl refl rigid fm inv hand diag, of ?s]
    by (simp add: lim mv v)
qed

text \<open>
  The override of \<^verbatim>\<open>ViewState3d\<close> compares the X-spans only after the base class has
  committed origin, extents and rotation and after the camera has been turned off.
\<close>

lemma setupFromFrustum3d_rejects_after_commit:
  assumes "ViewState_setupFromFrustum g s f = (Success, s0)"
    and "distance (LeftBottomFront f) (RightBottomFront f) >
         distance (LeftBottomRear f) (RightBottomRear f) * (1 + 1 / 1000000)"
  shows "ViewState3d_setupFromFrustum g s f = (InvalidWindow, turnCameraOff s0)"
  using assms by (simp add: ViewState3d_setupFromFrustum_def Let_def)

lemma exploding_base:
  "ViewState_setupFromFrustum refDeps view1 explodingFrustum =
     (Success, view1\<lparr>origin := Vec3 (1 / 4) (1 / 4) 0, extents := Vec3 1 1 1, rotation := identity3\<rparr>)"
  by (simp add: ViewState_setupFromFrustum_def ref_defs vec_defs view_defs example_defs
        validateViewDelta_def limitWindowSize_def Let_def)

text \<open>
  Claim C2 (the code departs from it).  On the frustum \<open>explodingFrustum\<close>, whose front
  X-span 2 exceeds its rear X-span 1, \<^verbatim>\<open>ViewState3d.setupFromFrustum\<close> returns
  \<^verbatim>\<open>InvalidWindow\<close> as the claim says, but the view is not left as it was: origin,
  extents and rotation are those solved from the frustum and the camera is off.
\<close>

theorem setupFromFrustum3d_partial_write:
  "distance (LeftBottomFront explodingFrustum) (RightBottomFront explodingFrustum) >
     distance (LeftBottomRear explodingFrustum) (RightBottomRear explodingFrustum) * (1 + 1 / 1000000) \<and>
   ViewState3d_setupFromFrustum refDeps view1 explodingFrustum =
     (InvalidWindow,
      view1\<lparr>cameraOn := False, origin := Vec3 (1 / 4) (1 / 4) 0, extents := Vec3 1 1 1,
             rotation := identity3\<rparr>) \<and>
   view1\<lparr>cameraOn := False, origin := Vec3 (1 / 4) (1 / 4) 0, extents := Vec3 1 1 1,
             rotation := identity3\<rparr> \<noteq> view1"
proof -
  have d: "distance (LeftBottomFront explodingFrustum) (RightBottomFront explodingFrustum) = 2"
          "distance (LeftBottomRear explodingFrustum) (RightBottomRear explodingFrustum) = 1"
    by (simp_all add: vec_defs example_defs)
  have ne: "view1\<lparr>cameraOn := False, origin := Vec3 (1 / 4) (1 / 4) 0, extents := Vec3 1 1 1,
             rotation := identity3\<rparr> \<noteq> view1"
  proof
    assume "view1\<lparr>cameraOn := False, origin := Vec3 (1 / 4) (1 / 4) 0, extents := Vec3 1 1 1,
             rotation := identity3\<rparr> = view1"
    then have "cameraOn (view1\<lparr>cameraOn := False, origin := Vec3 (1 / 4) (1 / 4) 0, extents := Vec3 1 1 1,
             rotation := identity3\<rparr>) = cameraOn view1" by simp
    then show False by (simp add: view1_def)
  qed
  show ?thesis
    using ne by (simp add: d ViewState3d_setupFromFrustum_def exploding_base turnCameraOff_def)
qed

section \<open>Rotating the camera about an invalid axis\<close>

text \<open>
  Claim C10.  When no rotation matrix can be built from the axis and the angle
  (\<^verbatim>\<open>Matrix3d.createRotationAroundVector\<close> gives \<^verbatim>\<open>undefined\<close>, as for an axis of length
  zero), \<^verbatim>\<open>rotateCameraWorld\<close> returns \<^verbatim>\<open>InvalidUpVector\<close> and the view is unchanged.
\<close>

theorem rotateCameraWorld_invalid_axis:
  assumes "createRotationAroundVector g axis angle = None"
  shows "rotateCameraWorld g s angle axis aboutPt = (InvalidUpVector, s)"
  using assms by (simp add: rotateCameraWorld_def Let_def)

theorem rotateCameraWorld_invalid_axis_witness:
  "createRotationAroundVector refDeps (Vec3 0 0 0) (pi / 2) = None \<and>
   rotateCameraWorld refDeps view1 (pi / 2) (Vec3 0 0 0) None = (InvalidUpVector, view1)"
proof -
  have h: "createRotationAroundVector refDeps (Vec3 0 0 0) (pi / 2) = None"
    by (simp add: ref_defs vec_defs)
  show ?thesis
    using h rotateCameraWorld_invalid_axis [OF h, of view1 None] by simp
qed

section \<open>Lens-angle bounds\<close>

lemma mem_if: "((if c then a else b) \<in> S) = ((c \<longrightarrow> a \<in> S) \<and> (\<not> c \<longrightarrow> b \<in> S))"
  by simp

lemma fst_if: "fst (if c then a else b) = (if c then fst a else fst b)"
  by simp

lemma lookAt_status:
  "fst (lookAt g s eyePoint targetPoint upVector newExtents frontDistance backDistance)
     \<in> {Success, InvalidUpVector, InvalidTargetPoint, MinWindow, MaxWindow, MaxDisplayDepth}"
proof (cases "normalize_vec g upVector")
  case None
  then show ?thesis by (simp add: lookAt_def)
next
  case (Some yVec0)
  have big: "fst (validateViewDelta l d)
               \<in> {Success, InvalidUpVector, InvalidTargetPoint, MinWindow, MaxWindow, MaxDisplayDepth}"
    for l d
    using validateViewDelta_status [of l d] by auto
  have inS: "Success \<in> {Success, InvalidUpVector, InvalidTargetPoint, MinWindow, MaxWindow, MaxDisplayDepth}"
    "InvalidUpVector \<in> {Success, InvalidUpVector, InvalidTargetPoint, MinWindow, MaxWindow, MaxDisplayDepth}"
    "InvalidTargetPoint \<in> {Success, InvalidUpVector, InvalidTargetPoint, MinWindow, MaxWindow, MaxDisplayDepth}"
    "MaxDisplayDepth \<in> {Success, InvalidUpVector, InvalidTargetPoint, MinWindow, MaxWindow, MaxDisplayDepth}"
    by simp_all
  show ?thesis
    by (simp only: lookAt_def Some option.case Let_def case_prod_beta fst_if mem_if fst_conv
          big inS simp_thms)
qed

text \<open>
  Claim C5, as the code has it.  For an eye and a target more than a millimetre apart,
  \<^verbatim>\<open>lookAtUsingLensAngle\<close> returns \<^verbatim>\<open>InvalidLens\<close>, leaving the view as it was, for
  every field-of-view angle below 0.0001 radians (so for every angle \<open>\<le> 0\<close>) and for
  every angle above \<open>\<pi>\<close>; for every angle from 0.0001 up to and including \<open>\<pi>\<close> the
  result is not \<^verbatim>\<open>InvalidLens\<close>.
\<close>

theorem lookAtUsingLensAngle_lens_bounds:
  assumes "oneMillimeter < magnitude (vectorTo eyePoint targetPoint)"
  shows "(fov < 1 / 10000 \<or> pi < fov \<longrightarrow>
            lookAtUsingLensAngle g s eyePoint targetPoint upVector fov frontDistance backDistance
              = (InvalidLens, s)) \<and>
         (1 / 10000 \<le> fov \<and> fov \<le> pi \<longrightarrow>
            fst (lookAtUsingLensAngle g s eyePoint targetPoint upVector fov frontDistance backDistance)
              \<noteq> InvalidLens)"
proof -
  have "fst (lookAt g s eyePoint targetPoint upVector ne frontDistance backDistance) \<noteq> InvalidLens" for ne
    using lookAt_status [of g s eyePoint targetPoint upVector ne frontDistance backDistance] by auto
  then show ?thesis
    using assms by (auto simp: lookAtUsingLensAngle_def Let_def)
qed

lemma mag100: "magnitude (vectorTo (Vec3 0 0 100) (Vec3 0 0 0)) = 100"
  by (simp add: vec_defs)

theorem lookAtUsingLensAngle_lens_bounds_witness:
  "oneMillimeter < magnitude (vectorTo (Vec3 0 0 100) (Vec3 0 0 0)) \<and>
   lookAtUsingLensAngle refDeps view0 (Vec3 0 0 100) (Vec3 0 0 0) (Vec3 0 1 0) 0 None None
     = (InvalidLens, view0) \<and>
   lookAtUsingLensAngle refDeps view0 (Vec3 0 0 100) (Vec3 0 0 0) (Vec3 0 1 0) 4 None None
     = (InvalidLens, view0) \<and>
   fst (lookAtUsingLensAngle refDeps view0 (Vec3 0 0 100) (Vec3 0 0 0) (Vec3 0 1 0) (1 / 10000) None None)
     \<noteq> InvalidLens \<and>
   fst (lookAtUsingLensAngle refDeps view0 (Vec3 0 0 100) (Vec3 0 0 0) (Vec3 0 1 0) 2 None None)
     \<noteq> InvalidLens"
proof -
  have h: "oneMillimeter < magnitude (vectorTo (Vec3 0 0 100) (Vec3 0 0 0))"
    by (simp add: mag100 oneMillimeter_def)
  have p: "(2::real) \<le> pi" "pi < (4::real)" "1 / 10000 \<le> pi"
    using pi_ge_two pi_less_4 by simp_all
  note t = lookAtUsingLensAngle_lens_bounds [OF h, of _ refDeps view0 "Vec3 0 1 0" None None]
  show ?thesis
    using h p t [of 0] t [of 4] t [of "1 / 10000"] t [of 2] by simp
qed

text \<open>
  The claim as stated asks for \<^verbatim>\<open>InvalidLens\<close> at every angle \<open>\<ge> \<pi>\<close>.  The test of the
  source is \<^verbatim>\<open>fov.radians > Math.PI\<close>: the angle \<open>\<pi>\<close> itself passes it.
\<close>

theorem lookAtUsingLensAngle_accepts_pi:
  "pi \<le> (pi::real) \<and>
   oneMillimeter < magnitude (vectorTo (Vec3 0 0 100) (Vec3 0 0 0)) \<and>
   fst (lookAtUsingLensAngle refDeps view0 (Vec3 0 0 100) (Vec3 0 0 0) (Vec3 0 1 0) pi None None)
     \<noteq> InvalidLens"
proof -
  have "fst (lookAt refDeps view0 (Vec3 0 0 100) (Vec3 0 0 0) (Vec3 0 1 0) ne None None) \<noteq> InvalidLens" for ne
    using lookAt_status [of refDeps view0 "Vec3 0 0 100" "Vec3 0 0 0" "Vec3 0 1 0" ne None None] by auto
  moreover have "\<not> pi < 1 / 10000"
    using pi_ge_two by simp
  ultimately show ?thesis
    by (simp add: lookAtUsingLensAngle_def Let_def mag100 oneMillimeter_def)
qed

section \<open>The Z-fighting guard\<close>

text \<open>
  Claim C6.  In \<^verbatim>\<open>computeWorldToNpc\<close> with the camera on, let \<^verbatim>\<open>zBack\<close> and \<^verbatim>\<open>zFront\<close>
  be the distances first computed from the eye-to-origin vector and \<^verbatim>\<open>delta.z\<close>, and
  let their quotient be below \<^verbatim>\<open>Viewport.nearScale24\<close> (with \<^verbatim>\<open>zBack\<close> and the focus
  distance not zero, where the quotients of the model are those of the source).  Then
  the map returned is \<^verbatim>\<open>Map4d.createVectorFrustum\<close> of a frustum built from the adjusted
  values: \<^verbatim>\<open>zBack\<close> limited to 10 km (-10 km when it was further), \<^verbatim>\<open>zFront\<close> equal to
  that \<^verbatim>\<open>zBack\<close> times the near scale, and their difference as Z extent.  The origin of
  the frustum has the limited \<^verbatim>\<open>zBack\<close> as its view Z coordinate, its X and Y extents
  are scaled by \<open>- zBack / focusDistance\<close>, its Z extent has the adjusted \<^verbatim>\<open>zDelta\<close>, and
  the \<^verbatim>\<open>frustFraction\<close> given to \<^verbatim>\<open>createVectorFrustum\<close> and returned is
  \<open>(- zFront / focusDistance) / (- zBack / focusDistance)\<close>, which is the near scale.
\<close>

theorem computeWorldToNpc_z_guard:
  assumes cam: "cameraOn s"
    and rot: "viewRot = (case viewRotArg of Some r \<Rightarrow> r | None \<Rightarrow> getRotation s)"
    and org: "inOrigin = (case inOriginArg of Some p \<Rightarrow> p | None \<Rightarrow> getOrigin s)"
    and dlt: "delta = (case deltaArg of Some d \<Rightarrow> d | None \<Rightarrow> getExtents s)"
    and e0: "eyeToOriginIn = multiplyVector viewRot (createStartEnd (eye (camera s)) inOrigin)"
    and zb: "zBackIn = vz eyeToOriginIn"
    and zf: "zFrontIn = zBackIn + vz delta"
    and nz: "zBackIn \<noteq> 0"
    and fd: "focusDistance = focusDist (camera s)"
    and fnz: "focusDistance \<noteq> 0"
    and guard: "zFrontIn / zBackIn < nearScale24 g"
    and zB: "zBack = (if - zBackIn > 10 * oneKilometer then - (10 * oneKilometer) else zBackIn)"
    and zF: "zFront = zBack * nearScale24 g"
    and zD: "zDelta = zFront - zBack"
    and bf: "backFraction = - zBack / focusDistance"
    and ff: "frontFraction = - zFront / focusDistance"
  shows "- zBack \<le> 10 * oneKilometer \<and>
         computeWorldToNpc g s viewRotArg inOriginArg deltaArg =
           (createVectorFrustum g
              (plus3 (multiplyTransposeVector viewRot
                        (Vec3 (vx eyeToOriginIn * backFraction) (vy eyeToOriginIn * backFraction) zBack))
                     (eye (camera s)))
              (scale3 (rowX viewRot) (vx delta * backFraction))
              (scale3 (rowY viewRot) (vy delta * backFraction))
              (multiplyTransposeVector viewRot
                 (Vec3 (vx eyeToOriginIn * (frontFraction - backFraction))
                       (vy eyeToOriginIn * (frontFraction - backFraction)) zDelta))
              (frontFraction / backFraction),
            frontFraction / backFraction) \<and>
         frontFraction / backFraction = nearScale24 g"
proof -
  have c: "clipPlanes (nearScale24 g) eyeToOriginIn (vz delta) =
             (Vec3 (vx eyeToOriginIn) (vy eyeToOriginIn) zBack, zBack, zFront, zDelta)"
    using guard zb zf zB zF zD by (cases eyeToOriginIn) (auto simp: clipPlanes_def Let_def)
  have run: "computeWorldToNpc g s viewRotArg inOriginArg deltaArg =
           (createVectorFrustum g
              (plus3 (multiplyTransposeVector viewRot
                        (Vec3 (vx eyeToOriginIn * backFraction) (vy eyeToOriginIn * backFraction) zBack))
                     (eye (camera s)))
              (scale3 (rowX viewRot) (vx delta * backFraction))
              (scale3 (rowY viewRot) (vy delta * backFraction))
              (multiplyTransposeVector viewRot
                 (Vec3 (vx eyeToOriginIn * (frontFraction - backFraction))
                       (vy eyeToOriginIn * (frontFraction - backFraction)) zDelta))
              (frontFraction / backFraction),
            frontFraction / backFraction)"
    unfolding bf ff fd
    using cam
    by (simp add: computeWorldToNpc_def Let_def rot [symmetric] org [symmetric] dlt [symmetric]
          e0 [symmetric] c)
  have zbn: "zBack \<noteq> 0"
    using nz zB by (simp add: oneKilometer_def split: if_splits)
  have lim: "- zBack \<le> 10 * oneKilometer"
    using zB by (simp add: oneKilometer_def split: if_splits)
  have frac: "frontFraction / backFraction = nearScale24 g"
    unfolding bf ff zF using zbn fnz by simp
  show ?thesis
    using lim run frac by simp
qed

theorem computeWorldToNpc_z_guard_witness:
  "cameraOn farView \<and>
   multiplyVector (getRotation farView) (createStartEnd (eye (camera farView)) (getOrigin farView))
      = Vec3 (- 5) (- 5) (- 20000) \<and>
   (- 20000 + vz (getExtents farView)) / (- 20000) < nearScale24 refDeps \<and>
   computeWorldToNpc refDeps farView None None None =
     (Some (Vec3 (- 495) (- 495) 10000, Vec3 1000 0 0, Vec3 0 1000 0,
            Vec3 (9997 / 20) (9997 / 20) 9997, 3 / 10000), 3 / 10000)"
proof -
  have cam: "cameraOn farView" by (simp add: example_defs)
  have e0: "Vec3 (- 5) (- 5) (- 20000) =
      multiplyVector (getRotation farView) (createStartEnd (eye (camera farView)) (getOrigin farView))"
    by (simp add: view_defs vec_defs example_defs)
  have guard: "(- 20000 + vz (getExtents farView)) / (- 20000) < nearScale24 refDeps"
    by (simp add: example_defs view_defs refDeps_def)
  have fd: "100 = focusDist (camera farView)" by (simp add: example_defs)
  have zB: "- 10000 = (if - (- 20000) > 10 * oneKilometer then - (10 * oneKilometer) else (- 20000 :: real))"
    by (simp add: oneKilometer_def)
  have zF: "- 3 = - 10000 * nearScale24 refDeps" by (simp add: refDeps_def)
  have zD: "(9997::real) = - 3 - (- 10000)" by simp
  have bf: "(100::real) = - (- 10000) / 100" by simp
  have ff: "(3 / 100 :: real) = - (- 3) / 100" by simp
  note t = computeWorldToNpc_z_guard [where s = farView and g = refDeps
      and viewRotArg = None and inOriginArg = None and deltaArg = None
      and viewRot = "getRotation farView" and inOrigin = "getOrigin farView"
      and delta = "getExtents farView" and eyeToOriginIn = "Vec3 (- 5) (- 5) (- 20000)"
      and zBackIn = "- 20000" and zFrontIn = "- 20000 + vz (getExtents farView)"
      and focusDistance = 100 and zBack = "- 10000" and zFront = "- 3" and zDelta = 9997
      and backFraction = 100 and frontFraction = "3 / 100",
      OF cam _ _ _ e0 _ _ _ fd _ guard zB zF zD bf ff]
  have "computeWorldToNpc refDeps farView None None None =
     (Some (Vec3 (- 495) (- 495) 10000, Vec3 1000 0 0, Vec3 0 1000 0,
            Vec3 (9997 / 20) (9997 / 20) 9997, 3 / 10000), 3 / 10000)"
    using t
    by (simp add: refDeps_def ref_createVectorFrustum_def vec_defs view_defs example_defs)
  then show ?thesis
    using cam e0 guard by simp
qed

section \<open>The orthographic fit\<close>

lemma validateViewDelta_in_range:
  assumes "min_limit l \<le> vx d" "vx d \<le> max_limit l" "min_limit l \<le> vy d" "vy d \<le> max_limit l"
    "min_limit l \<le> vz d" "vz d \<le> max_limit l"
  shows "validateViewDelta l d = (Success, d)"
  using assms by (cases d) (simp add: validateViewDelta_def limitWindowSize_def)

lemma verifyFocusPlane_camera_off: "\<not> cameraOn s \<Longrightarrow> verifyFocusPlane s = s"
  by (simp add: verifyFocusPlane_def)

text \<open>
  Claim C8.  With the camera off, no aspect-ratio skew stored and extent limits that
  admit the fitted box, \<^verbatim>\<open>lookAtViewAlignedVolume\<close> on the volume from (0, 0, 0) to
  (100, 50, 10) with aspect 2 and no margin gives extents x = 104 and y = 52 (and
  z = 10.4): the dilation by 1.04 already has aspect 2, so \<^verbatim>\<open>adjustAspectRatio\<close>
  changes nothing.  The origin is moved to (-2, -1, -0.2) in view coordinates, so the
  centre of the view is the centre (50, 25, 5) of the volume, both carried to world
  coordinates by the transpose of the view rotation.
\<close>

theorem lookAtViewAlignedVolume_orthographic_fit:
  assumes off: "\<not> cameraOn s"
    and vol: "\<not> isNull g (Vec3 0 0 0, Vec3 100 50 10)"
    and skew: "aspectSkew s = None"
    and lo: "min_limit (extentLimits s) \<le> 52 / 5"
    and hi: "104 \<le> max_limit (extentLimits s)"
  shows "\<exists>s'. lookAtViewAlignedVolume g s (Vec3 0 0 0, Vec3 100 50 10) (Some 2) None = Some s' \<and>
           extents s' = Vec3 104 52 (52 / 5) \<and>
           origin s' = multiplyTransposeVector (rotation s) (Vec3 (- 2) (- 1) (- (1 / 5))) \<and>
           rotation s' = rotation s \<and>
           getCenter s' = multiplyTransposeVector (rotation s) (Vec3 50 25 5)"
proof -
  let ?d = "Vec3 104 52 (52 / 5)"
  have v: "validateViewDelta (extentLimits s) ?d = (Success, ?d)"
    using lo hi by (intro validateViewDelta_in_range) simp_all
  let ?s1 = "s\<lparr>extents := ?d\<rparr>"
  have asp: "adjustAspectRatio g ?s1 2 = Some ?s1"
    using skew by (simp add: adjustAspectRatio_def getAspectRatioSkew_def view_defs Let_def)
  let ?s3 = "?s1\<lparr>origin := multiplyTransposeVector (rotation s) (Vec3 (- 2) (- 1) (- (1 / 5)))\<rparr>"
  let ?cam = "Camera_setFocusDistance (validateLens g (camera ?s3))
                (max 104 52 / (2 * tan (lens (validateLens g (camera ?s3)) / 2)))"
  let ?s5 = "centerEyePoint (?s3\<lparr>camera := ?cam\<rparr>)
               (Some (max 104 52 / (2 * tan (lens (validateLens g (camera ?s3)) / 2)) + 52 / 5))"
  have run: "lookAtViewAlignedVolume g s (Vec3 0 0 0, Vec3 100 50 10) (Some 2) None = Some (verifyFocusPlane ?s5)"
    using off vol
    by (simp add: lookAtViewAlignedVolume_def Let_def oneMillimeter_def createStartEnd_def minus3_def
          scale3_def v asp numberOr_def getExtents_def getRotation_def setExtents_def setOrigin_def)
  have off5: "\<not> cameraOn ?s5"
    using off by (simp add: centerEyePoint_def Let_def view_defs)
  have fin: "verifyFocusPlane ?s5 = ?s5"
    using off5 by (rule verifyFocusPlane_camera_off)
  have e: "extents ?s5 = ?d" "rotation ?s5 = rotation s"
    "origin ?s5 = multiplyTransposeVector (rotation s) (Vec3 (- 2) (- 1) (- (1 / 5)))"
    by (simp_all add: centerEyePoint_def Let_def view_defs)
  have c: "getCenter ?s5 = multiplyTransposeVector (rotation s) (Vec3 50 25 5)"
    unfolding getCenter_def getOrigin_def getExtents_def getRotation_def Let_def e
    by (cases "rotation s") (simp add: vec_defs algebra_simps)
  show ?thesis
    using run fin e c by simp
qed

theorem lookAtViewAlignedVolume_orthographic_fit_witness:
  "\<not> cameraOn view0 \<and> \<not> isNull refDeps (Vec3 0 0 0, Vec3 100 50 10) \<and> aspectSkew view0 = None \<and>
   min_limit (extentLimits view0) \<le> 52 / 5 \<and> 104 \<le> max_limit (extentLimits view0) \<and>
   (\<exists>s'. lookAtViewAlignedVolume refDeps view0 (Vec3 0 0 0, Vec3 100 50 10) (Some 2) None = Some s' \<and>
         extents s' = Vec3 104 52 (52 / 5) \<and> origin s' = Vec3 (- 2) (- 1) (- (1 / 5)) \<and>
         getCenter s' = Vec3 50 25 5)"
proof -
  have off: "\<not> cameraOn view0" by (simp add: example_defs)
  have vol: "\<not> isNull refDeps (Vec3 0 0 0, Vec3 100 50 10)" by (simp add: refDeps_def ref_isNull_def)
  have skew: "aspectSkew view0 = None" by (simp add: example_defs)
  have lo: "min_limit (extentLimits view0) \<le> 52 / 5" by (simp add: example_defs view_defs)
  have hi: "104 \<le> max_limit (extentLimits view0)" by (simp add: example_defs view_defs)
  have r: "rotation view0 = identity3" by (simp add: example_defs)
  have m: "multiplyTransposeVector identity3 v = v" for v
    by (cases v) (simp add: vec_defs identity3_def)
  obtain s' where s': "lookAtViewAlignedVolume refDeps view0 (Vec3 0 0 0, Vec3 100 50 10) (Some 2) None = Some s'"
      "extents s' = Vec3 104 52 (52 / 5)"
      "origin s' = multiplyTransposeVector (rotation view0) (Vec3 (- 2) (- 1) (- (1 / 5)))"
      "getCenter s' = multiplyTransposeVector (rotation view0) (Vec3 50 25 5)"
    using lookAtViewAlignedVolume_orthographic_fit [OF off vol skew lo hi] by blast
  have "lookAtViewAlignedVolume refDeps view0 (Vec3 0 0 0, Vec3 100 50 10) (Some 2) None = Some s' \<and>
         extents s' = Vec3 104 52 (52 / 5) \<and> origin s' = Vec3 (- 2) (- 1) (- (1 / 5)) \<and>
         getCenter s' = Vec3 50 25 5"
    using s' by (simp add: r m)
  then have "\<exists>s'. lookAtViewAlignedVolume refDeps view0 (Vec3 0 0 0, Vec3 100 50 10) (Some 2) None = Some s' \<and>
         extents s' = Vec3 104 52 (52 / 5) \<and> origin s' = Vec3 (- 2) (- 1) (- (1 / 5)) \<and>
         getCenter s' = Vec3 50 25 5" ..
  then show ?thesis
    using off vol skew lo hi by simp
qed

section \<open>Looking at a target\<close>

lemma validateViewDelta_xy_in_range:
  assumes "min_limit l \<le> vx d" "vx d \<le> max_limit l" "min_limit l \<le> vy d" "vy d \<le> max_limit l"
  shows "fst (validateViewDelta l d) = Success"
  using assms by (simp add: validateViewDelta_def limitWindowSize_def Let_def split: prod.splits)

lemma arctan_lower: "0 \<le> x \<Longrightarrow> x / sqrt (1 + x\<^sup>2) \<le> arctan x"
proof -
  assume "0 \<le> x"
  then have "0 \<le> arctan x" by simp
  then have "sin (arctan x) \<le> arctan x" by (rule sin_x_le_x)
  then show ?thesis by (simp add: sin_arctan)
qed

lemma lens_scenario: "1 / 10000 < 2 * arctan (5 / 100) \<and> 2 * arctan (5 / 100) < pi"
proof -
  have "sqrt (1 + (1 / 20)\<^sup>2) \<le> sqrt 4"
    by (rule real_sqrt_le_mono) (simp add: power2_eq_square)
  then have s: "sqrt (1 + (1 / 20)\<^sup>2) \<le> 2" by simp
  have p: "0 < sqrt (1 + (1 / 20)\<^sup>2)" by (simp add: power2_eq_square)
  have "(1 / 20) / 2 \<le> (1 / 20) / sqrt (1 + (1 / 20)\<^sup>2)"
    using s p by (intro divide_left_mono) simp_all
  also have "\<dots> \<le> arctan (1 / 20)" by (rule arctan_lower) simp
  finally have "1 / 40 \<le> arctan (5 / 100)" by simp
  moreover have "arctan (5 / 100) < pi / 2" by (rule arctan_ubound)
  ultimately show ?thesis by simp
qed

lemma lookAt_result:
  assumes "normalize_vec g upVector = Some upUnit"
    and "normalizeWithLength g (createStartEnd targetPoint eyePoint) = (zVec, fd)"
    and "\<not> fd \<le> minimumFrontDistance s"
    and "normalizeWithLength g (crossProduct upUnit zVec) = (xVec, xMag)"
    and "\<not> xMag < smallMetricDistance g"
    and "normalizeWithLength g (crossProduct zVec xVec) = (yVec, yMag)"
    and "\<not> yMag < smallMetricDistance g"
    and "frontA = max (numberOr frontDistance (getFrontDistance s)) (1 / 2 * oneMeter)"
    and "backA = max (numberOr backDistance (getBackDistance s)) (fd + 1 / 2 * oneMeter)"
    and "backB = (if backA < fd then fd + oneMillimeter else backA)"
    and "frontB = (if frontA > fd then fd - minimumFrontDistance s else frontA)"
    and "frontC = (if frontB < minimumFrontDistance s then minimumFrontDistance s else frontB)"
    and "deltaA = (case newExtents of Some (ex, ey) \<Rightarrow> Vec3 \<bar>ex\<bar> \<bar>ey\<bar> (vz (extents s))
                   | None \<Rightarrow> extents s)"
    and "delta = Vec3 (vx deltaA) (vy deltaA) (backB - frontC)"
    and "stat = fst (validateViewDelta (extentLimits s) (scale3 delta (frontC / fd)))"
    and "sE = setExtents (setOrigin (setFocusDistance (setRotation (setEyePoint s eyePoint)
                 (createRows xVec yVec zVec)) fd)
                 (plus3Scaled eyePoint zVec (- backB) xVec (- (1 / 2) * vx delta)
                    yVec (- (1 / 2) * vy delta))) delta"
  shows "lookAt g s eyePoint targetPoint upVector newExtents frontDistance backDistance =
           (if Success \<noteq> stat then (stat, s)
            else if vz delta > calculateMaxDepth delta zVec then (MaxDisplayDepth, s)
            else (Success, enableCamera (setLensAngle sE (calcLensAngle sE))))"
  unfolding assms(16)
  apply (simp only: lookAt_def assms(1) option.case Let_def assms(2) prod.case assms(3) if_False
      assms(4) assms(5) assms(6) assms(7))
  apply (simp only: assms(8-15) [symmetric])
  done

lemma lookAt_success:
  assumes "normalize_vec g upVector = Some upUnit"
    and "normalizeWithLength g (createStartEnd targetPoint eyePoint) = (zVec, fd)"
    and "\<not> fd \<le> minimumFrontDistance s"
    and "normalizeWithLength g (crossProduct upUnit zVec) = (xVec, xMag)"
    and "\<not> xMag < smallMetricDistance g"
    and "normalizeWithLength g (crossProduct zVec xVec) = (yVec, yMag)"
    and "\<not> yMag < smallMetricDistance g"
    and "frontA = max (numberOr frontDistance (getFrontDistance s)) (1 / 2 * oneMeter)"
    and "backA = max (numberOr backDistance (getBackDistance s)) (fd + 1 / 2 * oneMeter)"
    and "backB = (if backA < fd then fd + oneMillimeter else backA)"
    and "frontB = (if frontA > fd then fd - minimumFrontDistance s else frontA)"
    and "frontC = (if frontB < minimumFrontDistance s then minimumFrontDistance s
                           else frontB)"
    and "deltaA = (case newExtents of Some (ex, ey) \<Rightarrow> Vec3 \<bar>ex\<bar> \<bar>ey\<bar> (vz (extents s))
                   | None \<Rightarrow> extents s)"
    and "delta = Vec3 (vx deltaA) (vy deltaA) (backB - frontC)"
    and "fst (validateViewDelta (extentLimits s) (scale3 delta (frontC / fd))) = Success"
    and "\<not> vz delta > calculateMaxDepth delta zVec"
    and "sE = setExtents (setOrigin (setFocusDistance (setRotation (setEyePoint s eyePoint)
                 (createRows xVec yVec zVec)) fd)
                 (plus3Scaled eyePoint zVec (- backB) xVec (- (1 / 2) * vx delta)
                    yVec (- (1 / 2) * vy delta))) delta"
  shows "lookAt g s eyePoint targetPoint upVector newExtents frontDistance backDistance =
           (Success, enableCamera (setLensAngle sE (calcLensAngle sE)))"
  using lookAt_result [OF assms(1-14) refl assms(17)] assms(15,16) by simp

text \<open>
  The run of \<^verbatim>\<open>lookAt\<close> on the scenario, up to the last two calls
  (\<^verbatim>\<open>setLensAngle\<close> and \<^verbatim>\<open>enableCamera\<close>): whether the view supports a camera plays no
  part before them.
\<close>

lemma lookAt_scenario_run:
  assumes ext: "extents s = Vec3 10 10 1"
    and fmd: "forceMinFrontDist s = 0"
    and lo: "min_limit (extentLimits s) \<le> 1 / 20"
    and hi: "10 \<le> max_limit (extentLimits s)"
    and bdist: "getBackDistance s \<le> 1000000000 + (100 - 152 / 1000)"
    and up: "normalize_vec g (Vec3 0 1 0) = Some (Vec3 0 1 0)"
    and nz: "normalizeWithLength g (Vec3 0 0 100) = (Vec3 0 0 1, 100)"
    and nx: "normalizeWithLength g (Vec3 1 0 0) = (Vec3 1 0 0, 1)"
    and ny: "normalizeWithLength g (Vec3 0 1 0) = (Vec3 0 1 0, 1)"
    and small: "smallMetricDistance g \<le> 1"
  shows "\<exists>sE. lookAt g s (Vec3 0 0 100) (Vec3 0 0 0) (Vec3 0 1 0) None None None =
                (Success, enableCamera (setLensAngle sE (calcLensAngle sE))) \<and>
              calcLensAngle sE = 2 * arctan (5 / 100) \<and> focusDist (camera sE) = 100 \<and>
              eye (camera sE) = Vec3 0 0 100 \<and> rotation sE = identity3 \<and>
              vx (extents sE) = 10 \<and> vy (extents sE) = 10 \<and>
              cameraOn sE = cameraOn s \<and> cameraSupported sE = cameraSupported s"
proof -
  define B where "B = getBackDistance s"
  define mfd where "mfd = minimumFrontDistance s"
  define front1 where "front1 = max (B - 1) (1 / 2 * oneMeter)"
  define back1 where "back1 = max B (100 + 1 / 2 * oneMeter)"
  define front2 where "front2 = (if front1 > 100 then 100 - mfd else front1)"
  define delta where "delta = Vec3 10 10 (back1 - front2)"
  have mfd: "mfd = 152 / 1000"
    by (simp add: mfd_def minimumFrontDistance_def fmd oneCentimeter_def)
  have f2: "1 / 2 \<le> front2" "front2 \<le> 100"
    unfolding front2_def front1_def mfd oneMeter_def by (simp_all add: max_def)
  have b1: "100 < back1"
    unfolding back1_def oneMeter_def by (simp add: max_def)
  have dz: "back1 - front2 \<le> 1000000000"
    using bdist unfolding back1_def front2_def front1_def mfd B_def oneMeter_def
    by (auto simp: max_def)
  have fr: "getFrontDistance s = B - 1"
    by (simp add: getFrontDistance_def B_def ext)
  have st: "fst (validateViewDelta (extentLimits s) (scale3 delta (front2 / 100))) = Success"
    using lo hi f2 by (intro validateViewDelta_xy_in_range) (simp_all add: delta_def scale3_def)
  have depth: "\<not> vz delta > calculateMaxDepth delta (Vec3 0 0 1)"
    using dz by (simp add: calculateMaxDepth_def delta_def)
  let ?s5 = "s\<lparr>camera := (camera s)\<lparr>eye := Vec3 0 0 100, focusDist := 100\<rparr>, rotation := identity3,
               origin := plus3Scaled (Vec3 0 0 100) (Vec3 0 0 1) (- back1) (Vec3 1 0 0) (- (1 / 2) * 10)
                           (Vec3 0 1 0) (- (1 / 2) * 10),
               extents := delta\<rparr>"
  have calc: "calcLensAngle ?s5 = 2 * arctan (5 / 100)"
    by (simp add: calcLensAngle_def delta_def atan2_def)
  have mf: "minimumFrontDistance s = 152 / 1000"
    using mfd by (simp add: mfd_def)
  have run: "lookAt g s (Vec3 0 0 100) (Vec3 0 0 0) (Vec3 0 1 0) None None None =
               (Success, enableCamera (setLensAngle ?s5 (calcLensAngle ?s5)))"
  proof (rule lookAt_success [where upUnit = "Vec3 0 1 0" and zVec = "Vec3 0 0 1" and fd = 100
        and xVec = "Vec3 1 0 0" and xMag = 1 and yVec = "Vec3 0 1 0" and yMag = 1
        and frontA = front1 and backA = back1 and backB = back1
        and frontB = front2 and frontC = front2 and deltaA = "Vec3 10 10 1"
        and delta = delta])
    show "normalize_vec g (Vec3 0 1 0) = Some (Vec3 0 1 0)" by (rule up)
    show "normalizeWithLength g (createStartEnd (Vec3 0 0 0) (Vec3 0 0 100)) = (Vec3 0 0 1, 100)"
      by (simp add: createStartEnd_def minus3_def nz)
    show "\<not> 100 \<le> minimumFrontDistance s" by (simp add: mf)
    show "normalizeWithLength g (crossProduct (Vec3 0 1 0) (Vec3 0 0 1)) = (Vec3 1 0 0, 1)"
      by (simp add: crossProduct_def nx)
    show "\<not> 1 < smallMetricDistance g" using small by simp
    show "normalizeWithLength g (crossProduct (Vec3 0 0 1) (Vec3 1 0 0)) = (Vec3 0 1 0, 1)"
      by (simp add: crossProduct_def ny)
    show "\<not> 1 < smallMetricDistance g" using small by simp
    show "front1 = max (numberOr None (getFrontDistance s)) (1 / 2 * oneMeter)"
      by (simp add: front1_def numberOr_def fr)
    show "back1 = max (numberOr None (getBackDistance s)) (100 + 1 / 2 * oneMeter)"
      by (simp add: back1_def numberOr_def B_def)
    show "back1 = (if back1 < 100 then 100 + oneMillimeter else back1)"
      using b1 by simp
    show "front2 = (if front1 > 100 then 100 - minimumFrontDistance s else front1)"
      by (simp add: front2_def mfd_def)
    show "front2 = (if front2 < minimumFrontDistance s then minimumFrontDistance s else front2)"
      using f2 by (simp add: mf)
    show "Vec3 10 10 1 = (case None of Some (ex, ey) \<Rightarrow> Vec3 \<bar>ex\<bar> \<bar>ey\<bar> (vz (extents s))
                   | None \<Rightarrow> extents s)"
      by (simp add: ext)
    show "delta = Vec3 (vx (Vec3 10 10 1)) (vy (Vec3 10 10 1)) (back1 - front2)"
      by (simp add: delta_def)
    show "fst (validateViewDelta (extentLimits s) (scale3 delta (front2 / 100))) = Success"
      by (rule st)
    show "\<not> vz delta > calculateMaxDepth delta (Vec3 0 0 1)" by (rule depth)
    show "?s5 = setExtents (setOrigin (setFocusDistance (setRotation (setEyePoint s (Vec3 0 0 100))
                 (createRows (Vec3 1 0 0) (Vec3 0 1 0) (Vec3 0 0 1))) 100)
                 (plus3Scaled (Vec3 0 0 100) (Vec3 0 0 1) (- back1) (Vec3 1 0 0) (- (1 / 2) * vx delta)
                    (Vec3 0 1 0) (- (1 / 2) * vy delta))) delta"
      by (simp add: view_defs createRows_def identity3_def delta_def)
  qed
  have rest: "focusDist (camera ?s5) = 100" "eye (camera ?s5) = Vec3 0 0 100"
    "rotation ?s5 = identity3" "vx (extents ?s5) = 10" "vy (extents ?s5) = 10"
    "cameraOn ?s5 = cameraOn s" "cameraSupported ?s5 = cameraSupported s"
    by (simp_all add: delta_def)
  show ?thesis
    by (rule exI [of _ ?s5]) (intro conjI run calc rest)
qed

text \<open>
  Claim C7, for the views on which it holds.  Take a view with extents (10, 10, 1)
  that supports a camera, with the default \<^verbatim>\<open>forceMinFrontDist\<close> of 0, extent limits
  that admit widths from 0.05 to 10 (the spatial defaults do), and an existing back
  distance of at most \<open>10\<^sup>9 + 99.848\<close>, the largest for which the depth of the new view
  is within the display depth of \<open>10\<^sup>9\<close>; let the vector operations be exact on the four
  vectors of the scenario.  Then \<^verbatim>\<open>lookAt\<close> with eye (0, 0, 100), target (0, 0, 0), up
  (0, 1, 0) and no extents or distances given returns \<^verbatim>\<open>Success\<close>; afterwards the
  focus distance is 100, the camera is on, and the lens angle is
  \<open>2 arctan (5 / 100)\<close>, the value of \<^verbatim>\<open>calcLensAngle\<close>.
\<close>

theorem lookAt_camera_scenario:
  assumes ext: "extents s = Vec3 10 10 1"
    and sup: "cameraSupported s"
    and fmd: "forceMinFrontDist s = 0"
    and lo: "min_limit (extentLimits s) \<le> 1 / 20"
    and hi: "10 \<le> max_limit (extentLimits s)"
    and bdist: "getBackDistance s \<le> 1000000000 + (100 - 152 / 1000)"
    and up: "normalize_vec g (Vec3 0 1 0) = Some (Vec3 0 1 0)"
    and nz: "normalizeWithLength g (Vec3 0 0 100) = (Vec3 0 0 1, 100)"
    and nx: "normalizeWithLength g (Vec3 1 0 0) = (Vec3 1 0 0, 1)"
    and ny: "normalizeWithLength g (Vec3 0 1 0) = (Vec3 0 1 0, 1)"
    and small: "smallMetricDistance g \<le> 1"
  shows "\<exists>s'. lookAt g s (Vec3 0 0 100) (Vec3 0 0 0) (Vec3 0 1 0) None None None = (Success, s') \<and>
           focusDist (camera s') = 100 \<and> cameraOn s' \<and>
           lens (camera s') = 2 * arctan (5 / 100) \<and>
           lens (camera s') = calcLensAngle s' \<and>
           eye (camera s') = Vec3 0 0 100 \<and> rotation s' = identity3"
proof -
  obtain sE where run: "lookAt g s (Vec3 0 0 100) (Vec3 0 0 0) (Vec3 0 1 0) None None None =
                (Success, enableCamera (setLensAngle sE (calcLensAngle sE)))"
    and sE: "calcLensAngle sE = 2 * arctan (5 / 100)" "focusDist (camera sE) = 100"
      "eye (camera sE) = Vec3 0 0 100" "rotation sE = identity3"
      "vx (extents sE) = 10" "vy (extents sE) = 10"
      "cameraOn sE = cameraOn s" "cameraSupported sE = cameraSupported s"
    using lookAt_scenario_run [OF ext fmd lo hi bdist up nz nx ny small] by blast
  let ?s' = "enableCamera (setLensAngle sE (calcLensAngle sE))"
  have props: "focusDist (camera ?s') = 100" "cameraOn ?s'" "lens (camera ?s') = 2 * arctan (5 / 100)"
    "eye (camera ?s') = Vec3 0 0 100" "rotation ?s' = identity3" "calcLensAngle ?s' = 2 * arctan (5 / 100)"
    using lens_scenario sup sE
    by (simp_all add: enableCamera_def setLensAngle_def Camera_setLensAngle_def
          calcLensAngle_def atan2_def)
  show ?thesis
    using run props by simp
qed

theorem lookAt_camera_scenario_witness:
  "extents view0 = Vec3 10 10 1 \<and> cameraSupported view0 \<and> forceMinFrontDist view0 = 0 \<and>
   min_limit (extentLimits view0) \<le> 1 / 20 \<and> 10 \<le> max_limit (extentLimits view0) \<and>
   getBackDistance view0 \<le> 1000000000 + (100 - 152 / 1000) \<and>
   normalize_vec refDeps (Vec3 0 1 0) = Some (Vec3 0 1 0) \<and>
   normalizeWithLength refDeps (Vec3 0 0 100) = (Vec3 0 0 1, 100) \<and>
   normalizeWithLength refDeps (Vec3 1 0 0) = (Vec3 1 0 0, 1) \<and>
   normalizeWithLength refDeps (Vec3 0 1 0) = (Vec3 0 1 0, 1) \<and>
   smallMetricDistance refDeps \<le> 1 \<and>
   (\<exists>s'. lookAt refDeps view0 (Vec3 0 0 100) (Vec3 0 0 0) (Vec3 0 1 0) None None None = (Success, s') \<and>
         focusDist (camera s') = 100 \<and> cameraOn s' \<and> lens (camera s') = 2 * arctan (5 / 100))"
proof -
  have ext: "extents view0 = Vec3 10 10 1" by (simp add: example_defs)
  have sup: "cameraSupported view0" by (simp add: example_defs)
  have fmd: "forceMinFrontDist view0 = 0" by (simp add: example_defs)
  have lo: "min_limit (extentLimits view0) \<le> 1 / 20" by (simp add: example_defs view_defs)
  have hi: "10 \<le> max_limit (extentLimits view0)" by (simp add: example_defs view_defs)
  have bdist: "getBackDistance view0 \<le> 1000000000 + (100 - 152 / 1000)"
    by (simp add: getBackDistance_def example_defs view_defs vec_defs)
  have up: "normalize_vec refDeps (Vec3 0 1 0) = Some (Vec3 0 1 0)"
    by (simp add: ref_defs vec_defs)
  have nz: "normalizeWithLength refDeps (Vec3 0 0 100) = (Vec3 0 0 1, 100)"
    by (simp add: ref_defs vec_defs)
  have nx: "normalizeWithLength refDeps (Vec3 1 0 0) = (Vec3 1 0 0, 1)"
    by (simp add: ref_defs vec_defs)
  have ny: "normalizeWithLength refDeps (Vec3 0 1 0) = (Vec3 0 1 0, 1)"
    by (simp add: ref_defs vec_defs)
  have small: "smallMetricDistance refDeps \<le> 1" by (simp add: ref_defs)
  have "\<exists>s'. lookAt refDeps view0 (Vec3 0 0 100) (Vec3 0 0 0) (Vec3 0 1 0) None None None = (Success, s') \<and>
         focusDist (camera s') = 100 \<and> cameraOn s' \<and> lens (camera s') = 2 * arctan (5 / 100)"
    using lookAt_camera_scenario [OF ext sup fmd lo hi bdist up nz nx ny small] by blast
  then show ?thesis
    using ext sup fmd lo hi bdist up nz nx ny small by simp
qed

text \<open>
  The same call on the orthographic view and on the view with the far eye point.
\<close>

lemma refDeps_scenario_vectors:
  "normalize_vec refDeps (Vec3 0 1 0) = Some (Vec3 0 1 0)"
  "normalizeWithLength refDeps (Vec3 0 0 100) = (Vec3 0 0 1, 100)"
  "normalizeWithLength refDeps (Vec3 1 0 0) = (Vec3 1 0 0, 1)"
  "normalizeWithLength refDeps (Vec3 0 1 0) = (Vec3 0 1 0, 1)"
  "smallMetricDistance refDeps \<le> 1"
  by (simp_all add: ref_defs vec_defs)

lemma orthoView_lookAt:
  "fst (lookAt refDeps orthoView (Vec3 0 0 100) (Vec3 0 0 0) (Vec3 0 1 0) None None None) = Success \<and>
   \<not> cameraOn (snd (lookAt refDeps orthoView (Vec3 0 0 100) (Vec3 0 0 0) (Vec3 0 1 0) None None None))"
proof -
  have ext: "extents orthoView = Vec3 10 10 1" by (simp add: orthoView_def example_defs)
  have fmd: "forceMinFrontDist orthoView = 0" by (simp add: orthoView_def example_defs)
  have lo: "min_limit (extentLimits orthoView) \<le> 1 / 20"
    by (simp add: orthoView_def example_defs view_defs)
  have hi: "10 \<le> max_limit (extentLimits orthoView)"
    by (simp add: orthoView_def example_defs view_defs)
  have bdist: "getBackDistance orthoView \<le> 1000000000 + (100 - 152 / 1000)"
    by (simp add: getBackDistance_def orthoView_def example_defs view_defs vec_defs)
  obtain sE where run: "lookAt refDeps orthoView (Vec3 0 0 100) (Vec3 0 0 0) (Vec3 0 1 0) None None None =
                (Success, enableCamera (setLensAngle sE (calcLensAngle sE)))"
    and sE: "cameraOn sE = cameraOn orthoView" "cameraSupported sE = cameraSupported orthoView"
    using lookAt_scenario_run [OF ext fmd lo hi bdist refDeps_scenario_vectors] by blast
  have "\<not> cameraOn (enableCamera (setLensAngle sE (calcLensAngle sE)))"
    using sE by (simp add: enableCamera_def setLensAngle_def orthoView_def example_defs)
  then show ?thesis
    using run by simp
qed

lemma farEyeView_lookAt:
  "lookAt refDeps farEyeView (Vec3 0 0 100) (Vec3 0 0 0) (Vec3 0 1 0) None None None =
     (MaxDisplayDepth, farEyeView)"
proof -
  have mf: "minimumFrontDistance farEyeView = 152 / 1000"
    by (simp add: minimumFrontDistance_def farEyeView_def example_defs)
  have bd: "getBackDistance farEyeView = 2000000000"
    by (simp add: getBackDistance_def farEyeView_def example_defs view_defs vec_defs)
  have ext: "extents farEyeView = Vec3 10 10 1" by (simp add: farEyeView_def example_defs)
  have fr: "getFrontDistance farEyeView = 1999999999"
    by (simp add: getFrontDistance_def bd ext)
  let ?delta = "Vec3 10 10 (2000000000 - (100 - 152 / 1000))"
  have st: "Success = fst (validateViewDelta (extentLimits farEyeView)
                             (scale3 ?delta ((100 - 152 / 1000) / 100)))"
    by (simp add: validateViewDelta_def limitWindowSize_def scale3_def farEyeView_def
          example_defs view_defs)
  note r = lookAt_result [where g = refDeps and s = farEyeView and upUnit = "Vec3 0 1 0"
      and zVec = "Vec3 0 0 1" and fd = 100 and xVec = "Vec3 1 0 0" and xMag = 1
      and yVec = "Vec3 0 1 0" and yMag = 1 and frontA = 1999999999 and backA = 2000000000
      and backB = 2000000000 and frontB = "100 - 152 / 1000" and frontC = "100 - 152 / 1000"
      and deltaA = "Vec3 10 10 1" and delta = ?delta and stat = Success
      and eyePoint = "Vec3 0 0 100" and targetPoint = "Vec3 0 0 0" and upVector = "Vec3 0 1 0"
      and newExtents = None and frontDistance = None and backDistance = None, OF _ _ _ _ _ _ _ _ _ _ _ _ _ _ st refl]
  have "lookAt refDeps farEyeView (Vec3 0 0 100) (Vec3 0 0 0) (Vec3 0 1 0) None None None =
        (if Success \<noteq> Success then (Success, farEyeView)
         else if vz ?delta > calculateMaxDepth ?delta (Vec3 0 0 1) then (MaxDisplayDepth, farEyeView)
         else (Success, enableCamera (setLensAngle
                 (setExtents (setOrigin (setFocusDistance (setRotation (setEyePoint farEyeView (Vec3 0 0 100))
                    (createRows (Vec3 1 0 0) (Vec3 0 1 0) (Vec3 0 0 1))) 100)
                    (plus3Scaled (Vec3 0 0 100) (Vec3 0 0 1) (- 2000000000) (Vec3 1 0 0)
                       (- (1 / 2) * vx ?delta) (Vec3 0 1 0) (- (1 / 2) * vy ?delta))) ?delta)
                 (calcLensAngle
                   (setExtents (setOrigin (setFocusDistance (setRotation (setEyePoint farEyeView (Vec3 0 0 100))
                    (createRows (Vec3 1 0 0) (Vec3 0 1 0) (Vec3 0 0 1))) 100)
                    (plus3Scaled (Vec3 0 0 100) (Vec3 0 0 1) (- 2000000000) (Vec3 1 0 0)
                       (- (1 / 2) * vx ?delta) (Vec3 0 1 0) (- (1 / 2) * vy ?delta))) ?delta)))))"
  proof (rule r)
    show "normalize_vec refDeps (Vec3 0 1 0) = Some (Vec3 0 1 0)"
      by (rule refDeps_scenario_vectors)
    show "normalizeWithLength refDeps (createStartEnd (Vec3 0 0 0) (Vec3 0 0 100)) = (Vec3 0 0 1, 100)"
      by (simp add: createStartEnd_def minus3_def refDeps_scenario_vectors)
    show "\<not> 100 \<le> minimumFrontDistance farEyeView" by (simp add: mf)
    show "normalizeWithLength refDeps (crossProduct (Vec3 0 1 0) (Vec3 0 0 1)) = (Vec3 1 0 0, 1)"
      by (simp add: crossProduct_def refDeps_scenario_vectors)
    show "\<not> 1 < smallMetricDistance refDeps" by (simp add: refDeps_def)
    show "normalizeWithLength refDeps (crossProduct (Vec3 0 0 1) (Vec3 1 0 0)) = (Vec3 0 1 0, 1)"
      by (simp add: crossProduct_def refDeps_scenario_vectors)
    show "\<not> 1 < smallMetricDistance refDeps" by (simp add: refDeps_def)
    show "1999999999 = max (numberOr None (getFrontDistance farEyeView)) (1 / 2 * oneMeter)"
      by (simp add: numberOr_def fr oneMeter_def)
    show "2000000000 = max (numberOr None (getBackDistance farEyeView)) (100 + 1 / 2 * oneMeter)"
      by (simp add: numberOr_def bd oneMeter_def)
    show "(2000000000::real) = (if (2000000000::real) < 100 then 100 + oneMillimeter else 2000000000)"
      by simp
    show "100 - 152 / 1000 = (if 1999999999 > (100::real) then 100 - minimumFrontDistance farEyeView
                               else 1999999999)"
      by (simp add: mf)
    show "100 - 152 / 1000 = (if 100 - 152 / 1000 < minimumFrontDistance farEyeView
                               then minimumFrontDistance farEyeView else 100 - 152 / 1000)"
      by (simp add: mf)
    show "Vec3 10 10 1 = (case None of Some (ex, ey) \<Rightarrow> Vec3 \<bar>ex\<bar> \<bar>ey\<bar> (vz (extents farEyeView))
                   | None \<Rightarrow> extents farEyeView)"
      by (simp add: ext)
    show "?delta = Vec3 (vx (Vec3 10 10 1)) (vy (Vec3 10 10 1)) (2000000000 - (100 - 152 / 1000))"
      by simp
  qed
  then show ?thesis
    by (simp add: calculateMaxDepth_def)
qed

text \<open>
  The claim as stated speaks of every \<^verbatim>\<open>ViewState3d\<close> with extents (10, 10, 1).  On an
  orthographic view \<^verbatim>\<open>enableCamera\<close> does nothing (it asks \<^verbatim>\<open>supportsCamera\<close> first), so
  \<^verbatim>\<open>lookAt\<close> returns \<^verbatim>\<open>Success\<close> and the camera is still off.  On a view whose stored
  eye is \<open>2 \<times> 10\<^sup>9\<close> metres from the back plane, the back distance taken as default makes
  the view deeper than the display depth, and \<^verbatim>\<open>lookAt\<close> returns \<^verbatim>\<open>MaxDisplayDepth\<close>
  with the view unchanged.
\<close>

theorem lookAt_camera_scenario_counterexample:
  "extents orthoView = Vec3 10 10 1 \<and>
   fst (lookAt refDeps orthoView (Vec3 0 0 100) (Vec3 0 0 0) (Vec3 0 1 0) None None None) = Success \<and>
   \<not> cameraOn (snd (lookAt refDeps orthoView (Vec3 0 0 100) (Vec3 0 0 0) (Vec3 0 1 0) None None None)) \<and>
   extents farEyeView = Vec3 10 10 1 \<and>
   lookAt refDeps farEyeView (Vec3 0 0 100) (Vec3 0 0 0) (Vec3 0 1 0) None None None =
     (MaxDisplayDepth, farEyeView)"
  using orthoView_lookAt farEyeView_lookAt
  by (simp add: orthoView_def farEyeView_def example_defs)

section \<open>The rigidity invariant\<close>

lemma cross_dot_left: "dotProduct (crossProduct a b) a = 0" "dotProduct a (crossProduct a b) = 0"
  by (simp_all add: vec_defs algebra_simps)

lemma cross_dot_right: "dotProduct (crossProduct a b) b = 0" "dotProduct b (crossProduct a b) = 0"
  by (simp_all add: vec_defs algebra_simps)

lemma dot_commute: "dotProduct a b = dotProduct b a"
  by (simp add: vec_defs algebra_simps)

lemma cross_norm:
  "dotProduct (crossProduct a b) (crossProduct a b) =
     dotProduct a a * dotProduct b b - dotProduct a b * dotProduct a b"
  by (simp add: vec_defs algebra_simps)

lemma triple_cyclic:
  "dotProduct a (crossProduct b c) = dotProduct c (crossProduct a b)"
  "dotProduct a (crossProduct b c) = dotProduct b (crossProduct c a)"
  by (simp_all add: vec_defs algebra_simps)

text \<open>The outer products of a, b and a x b: the polynomial identities behind the
  completeness of an orthonormal frame.\<close>

lemma frame_identity:
  fixes a b :: vec3
  defines "n \<equiv> crossProduct a b"
  defines "k \<equiv> dotProduct a a * dotProduct b b - dotProduct a b * dotProduct a b"
  shows "vx n * vx n = k - dotProduct b b * (vx a * vx a) - dotProduct a a * (vx b * vx b)
                        + dotProduct a b * (2 * vx a * vx b)"
    and "vy n * vy n = k - dotProduct b b * (vy a * vy a) - dotProduct a a * (vy b * vy b)
                        + dotProduct a b * (2 * vy a * vy b)"
    and "vz n * vz n = k - dotProduct b b * (vz a * vz a) - dotProduct a a * (vz b * vz b)
                        + dotProduct a b * (2 * vz a * vz b)"
    and "vx n * vy n = - dotProduct b b * (vx a * vy a) - dotProduct a a * (vx b * vy b)
                        + dotProduct a b * (vx a * vy b + vy a * vx b)"
    and "vx n * vz n = - dotProduct b b * (vx a * vz a) - dotProduct a a * (vx b * vz b)
                        + dotProduct a b * (vx a * vz b + vz a * vx b)"
    and "vy n * vz n = - dotProduct b b * (vy a * vz a) - dotProduct a a * (vy b * vz b)
                        + dotProduct a b * (vy a * vz b + vz a * vy b)"
  unfolding n_def k_def
  by (simp_all add: vec_defs algebra_simps)

lemma frame_rows:
  assumes "dotProduct a a = 1" "dotProduct b b = 1" "dotProduct a b = 0"
  shows "orthonormalRows (Mat3 a b (crossProduct a b))"
  using assms by (simp add: orthonormalRows_def cross_norm cross_dot_left cross_dot_right)

lemma frame_columns:
  assumes "dotProduct a a = 1" "dotProduct b b = 1" "dotProduct a b = 0"
  shows "orthonormalRows (transpose3 (Mat3 a b (crossProduct a b)))"
proof -
  note f = frame_identity [of a b, unfolded assms, simplified]
  show ?thesis
    unfolding orthonormalRows_def transpose3_def columnX_def columnY_def columnZ_def
      dotProduct_def mat3.sel vec3.sel f
    by simp
qed

lemma frame_expand:
  assumes "dotProduct a a = 1" "dotProduct b b = 1" "dotProduct a b = 0"
  shows "c = plus3 (plus3 (scale3 a (dotProduct a c)) (scale3 b (dotProduct b c)))
               (scale3 (crossProduct a b) (dotProduct (crossProduct a b) c))"
proof -
  define n where "n = crossProduct a b"
  note f = frame_identity [of a b, unfolded assms, simplified, folded n_def]
  have x: "vx c = vx a * dotProduct a c + vx b * dotProduct b c + vx n * dotProduct n c"
  proof -
    have "vx a * dotProduct a c + vx b * dotProduct b c + vx n * dotProduct n c =
          (vx a * vx a + vx b * vx b + vx n * vx n) * vx c +
          (vx a * vy a + vx b * vy b + vx n * vy n) * vy c +
          (vx a * vz a + vx b * vz b + vx n * vz n) * vz c"
      by (simp add: dotProduct_def algebra_simps)
    also have "\<dots> = vx c" by (simp add: f)
    finally show ?thesis by simp
  qed
  have y: "vy c = vy a * dotProduct a c + vy b * dotProduct b c + vy n * dotProduct n c"
  proof -
    have "vy a * dotProduct a c + vy b * dotProduct b c + vy n * dotProduct n c =
          (vx a * vy a + vx b * vy b + vx n * vy n) * vx c +
          (vy a * vy a + vy b * vy b + vy n * vy n) * vy c +
          (vy a * vz a + vy b * vz b + vy n * vz n) * vz c"
      by (simp add: dotProduct_def algebra_simps)
    also have "\<dots> = vy c" by (simp add: f)
    finally show ?thesis by simp
  qed
  have z: "vz c = vz a * dotProduct a c + vz b * dotProduct b c + vz n * dotProduct n c"
  proof -
    have "vz a * dotProduct a c + vz b * dotProduct b c + vz n * dotProduct n c =
          (vx a * vz a + vx b * vz b + vx n * vz n) * vx c +
          (vy a * vz a + vy b * vz b + vy n * vz n) * vy c +
          (vz a * vz a + vz b * vz b + vz n * vz n) * vz c"
      by (simp add: dotProduct_def algebra_simps)
    also have "\<dots> = vz c" by (simp add: f)
    finally show ?thesis by simp
  qed
  show ?thesis
    using x y z by (cases c) (simp add: plus3_def scale3_def n_def)
qed

text \<open>The third row of a matrix with orthonormal rows is plus or minus the cross
  product of the first two, the sign being the determinant.\<close>

lemma third_row:
  assumes "orthonormalRows (Mat3 a b c)"
  shows "c = scale3 (crossProduct a b) (determinant (Mat3 a b c))"
    and "determinant (Mat3 a b c) * determinant (Mat3 a b c) = 1"
proof -
  have o: "dotProduct a a = 1" "dotProduct b b = 1" "dotProduct c c = 1" "dotProduct a b = 0"
    "dotProduct a c = 0" "dotProduct b c = 0"
    using assms by (simp_all add: orthonormalRows_def)
  define d where "d = dotProduct (crossProduct a b) c"
  have det: "determinant (Mat3 a b c) = d"
    by (simp add: determinant_def d_def triple_cyclic(1) [of a b c] dot_commute)
  have "c = plus3 (plus3 (scale3 a (dotProduct a c)) (scale3 b (dotProduct b c)))
               (scale3 (crossProduct a b) (dotProduct (crossProduct a b) c))"
    using o(1,2,4) by (rule frame_expand)
  also have "\<dots> = scale3 (crossProduct a b) d"
    by (simp add: o d_def plus3_def scale3_def)
  finally have c: "c = scale3 (crossProduct a b) d" .
  have "dotProduct c c = d * d * dotProduct (crossProduct a b) (crossProduct a b)"
    by (subst c, subst c) (simp add: dotProduct_def scale3_def algebra_simps)
  then have dd: "d * d = 1"
    by (simp add: o cross_norm)
  show "c = scale3 (crossProduct a b) (determinant (Mat3 a b c))" using c det by simp
  show "determinant (Mat3 a b c) * determinant (Mat3 a b c) = 1" using dd det by simp
qed

lemma orthonormal_det:
  assumes "orthonormalRows m"
  shows "\<bar>determinant m\<bar> = 1"
proof -
  obtain a b c where m: "m = Mat3 a b c" by (cases m)
  have "determinant m * determinant m = 1"
    using third_row(2) [of a b c] assms m by simp
  then have "\<bar>determinant m\<bar> * \<bar>determinant m\<bar> = 1"
    by (simp add: abs_mult [symmetric])
  then show ?thesis
    by (metis square_eq_1_iff abs_abs abs_1 abs_minus_cancel)
qed

lemma orthonormalRows_isRigid: "orthonormalRows m \<Longrightarrow> isRigid m"
  by (simp add: isRigid_def orthonormal_det)

lemma orthonormal_transpose:
  assumes "orthonormalRows m"
  shows "orthonormalRows (transpose3 m)"
proof -
  obtain a b c where m: "m = Mat3 a b c" by (cases m)
  have o: "dotProduct a a = 1" "dotProduct b b = 1" "dotProduct a b = 0"
    using assms m by (simp_all add: orthonormalRows_def)
  define d where "d = determinant (Mat3 a b c)"
  define n where "n = crossProduct a b"
  have c: "c = scale3 n d" and dd: "d * d = 1"
    using third_row [of a b c] assms m by (simp_all add: d_def n_def)
  have f: "orthonormalRows (transpose3 (Mat3 a b n))"
    unfolding n_def using o by (rule frame_columns)
  have sq: "x * d * (y * d) = x * y" for x y
    using dd by (simp add: algebra_simps)
  show ?thesis
    using f unfolding m c
    by (simp add: orthonormalRows_def transpose3_def columnX_def columnY_def columnZ_def
          dotProduct_def scale3_def sq)
qed

lemma isRigid_transpose: "isRigid m \<Longrightarrow> isRigid (transpose3 m)"
  by (simp add: isRigid_def orthonormal_transpose orthonormal_det)

lemma unit_scale:
  assumes "0 < magnitude v"
  shows "dotProduct (scale3 v (1 / magnitude v)) (scale3 v (1 / magnitude v)) = 1"
proof -
  have p: "0 < dotProduct v v"
    using assms by (simp add: magnitude_def)
  have "dotProduct (scale3 v (1 / magnitude v)) (scale3 v (1 / magnitude v)) =
          dotProduct v v * (1 / magnitude v * (1 / magnitude v))"
    by (simp add: dotProduct_def scale3_def algebra_simps)
  also have "1 / magnitude v * (1 / magnitude v) = 1 / dotProduct v v"
    using p by (simp add: magnitude_def)
  finally show ?thesis using p by simp
qed

lemma dot_scale_left: "dotProduct (scale3 a k) b = k * dotProduct a b"
  by (simp add: dotProduct_def scale3_def algebra_simps)

lemma lookAt_rows:
  assumes z: "dotProduct zVec zVec = 1"
    and x: "0 < magnitude (crossProduct upUnit zVec)"
      "xVec = scale3 (crossProduct upUnit zVec) (1 / magnitude (crossProduct upUnit zVec))"
    and y: "0 < magnitude (crossProduct zVec xVec)"
      "yVec = scale3 (crossProduct zVec xVec) (1 / magnitude (crossProduct zVec xVec))"
  shows "orthonormalRows (createRows xVec yVec zVec)"
proof -
  have xx: "dotProduct xVec xVec = 1"
    unfolding x(2) using x(1) by (rule unit_scale)
  have xz: "dotProduct xVec zVec = 0"
    unfolding x(2) by (simp add: dot_scale_left cross_dot_right)
  have zx: "dotProduct zVec xVec = 0"
    using xz by (simp add: dot_commute)
  have yy: "dotProduct yVec yVec = 1"
    unfolding y(2) using y(1) by (rule unit_scale)
  have xy: "dotProduct xVec yVec = 0"
    unfolding y(2) by (simp add: dot_commute [of xVec] dot_scale_left cross_dot_right)
  have yz: "dotProduct yVec zVec = 0"
    unfolding y(2) by (simp add: dot_scale_left cross_dot_left)
  show ?thesis
    by (simp add: orthonormalRows_def createRows_def xx yy z xy xz yz)
qed

lemma minimumFrontDistance_pos: "0 < minimumFrontDistance s"
  by (simp add: minimumFrontDistance_def oneCentimeter_def max_def)

lemma lookAt_rigid:
  assumes g: "rigidGeometry g" and s: "isRigid (rotation s)"
  shows "isRigid (rotation (snd (lookAt g s eyePoint targetPoint upVector newExtents
                                   frontDistance backDistance)))"
proof (cases "normalize_vec g upVector")
  case None
  then show ?thesis by (simp add: lookAt_def s)
next
  case (Some upUnit)
  obtain zVec fd where zp: "normalizeWithLength g (createStartEnd targetPoint eyePoint) = (zVec, fd)"
    by (cases "normalizeWithLength g (createStartEnd targetPoint eyePoint)")
  obtain xVec xMag where xp: "normalizeWithLength g (crossProduct upUnit zVec) = (xVec, xMag)"
    by (cases "normalizeWithLength g (crossProduct upUnit zVec)")
  obtain yVec yMag where yp: "normalizeWithLength g (crossProduct zVec xVec) = (yVec, yMag)"
    by (cases "normalizeWithLength g (crossProduct zVec xVec)")
  show ?thesis
  proof (cases "fd \<le> minimumFrontDistance s \<or> xMag < smallMetricDistance g \<or>
                yMag < smallMetricDistance g")
    case True
    then have "lookAt g s eyePoint targetPoint upVector newExtents frontDistance backDistance
                 = (InvalidTargetPoint, s) \<or>
               lookAt g s eyePoint targetPoint upVector newExtents frontDistance backDistance
                 = (InvalidUpVector, s)"
      by (simp only: lookAt_def Some option.case Let_def zp xp yp prod.case) auto
    then show ?thesis using s by auto
  next
    case False
    then have c: "\<not> fd \<le> minimumFrontDistance s" "\<not> xMag < smallMetricDistance g"
      "\<not> yMag < smallMetricDistance g" by simp_all
    have nw: "0 < snd (normalizeWithLength g v) \<Longrightarrow>
              0 < magnitude v \<and> fst (normalizeWithLength g v) = scale3 v (1 / magnitude v)" for v
      using g by (simp add: rigidGeometry_def)
    have small: "0 < smallMetricDistance g"
      using g by (simp add: rigidGeometry_def)
    have "0 < fd" using c(1) minimumFrontDistance_pos [of s] by simp
    then have z: "0 < magnitude (createStartEnd targetPoint eyePoint)"
      "zVec = scale3 (createStartEnd targetPoint eyePoint) (1 / magnitude (createStartEnd targetPoint eyePoint))"
      using nw [of "createStartEnd targetPoint eyePoint"] zp by simp_all
    have zz: "dotProduct zVec zVec = 1"
      unfolding z(2) using z(1) by (rule unit_scale)
    have "0 < xMag" using c(2) small by simp
    then have x: "0 < magnitude (crossProduct upUnit zVec)"
      "xVec = scale3 (crossProduct upUnit zVec) (1 / magnitude (crossProduct upUnit zVec))"
      using nw [of "crossProduct upUnit zVec"] xp by simp_all
    have "0 < yMag" using c(3) small by simp
    then have y: "0 < magnitude (crossProduct zVec xVec)"
      "yVec = scale3 (crossProduct zVec xVec) (1 / magnitude (crossProduct zVec xVec))"
      using nw [of "crossProduct zVec xVec"] yp by simp_all
    have rows: "isRigid (createRows xVec yVec zVec)"
      using lookAt_rows [OF zz x y] by (rule orthonormalRows_isRigid)
    note r = lookAt_result [OF Some zp c(1) xp c(2) yp c(3) refl refl refl refl refl refl refl refl refl,
        where frontDistance = frontDistance and backDistance = backDistance
          and newExtents = newExtents]
    show ?thesis
      unfolding r using s rows by (simp add: view_defs)
  qed
qed

lemma ViewState_setupFromFrustum_rigid:
  assumes g: "rigidGeometry g" and s: "isRigid (rotation s)"
  shows "isRigid (rotation (snd (ViewState_setupFromFrustum g s f)))"
proof -
  have l1: "createRigidFromColumns g a b = Some m \<Longrightarrow> isRigid m" for a b m
    using g by (simp add: rigidGeometry_def)
  have l2: "isRigid m \<Longrightarrow> isRigid (adjustToStandardRotation g m)" for m
    using g by (simp add: rigidGeometry_def)
  have l3: "isRigid m \<Longrightarrow> matrixInverse g m = Some n \<Longrightarrow> isRigid n" for m n
    using g by (simp add: rigidGeometry_def)
  have l: "createRigidFromColumns g a b = Some m \<Longrightarrow>
           matrixInverse g (adjustToStandardRotation g m) = Some n \<Longrightarrow> isRigid n" for a b m n
    using l1 l2 l3 by blast
  show ?thesis
    using s
    by (auto simp: ViewState_setupFromFrustum_def Let_def setRotation_def setExtents_def
          setOrigin_def split: option.splits intro: l)
qed

lemma ViewState3d_setupFromFrustum_rotation:
  "rotation (snd (ViewState3d_setupFromFrustum g s f)) =
     rotation (snd (ViewState_setupFromFrustum g s f))"
proof -
  obtain stat s0 where b: "ViewState_setupFromFrustum g s f = (stat, s0)"
    by (cases "ViewState_setupFromFrustum g s f")
  show ?thesis
    by (simp add: ViewState3d_setupFromFrustum_def b Let_def view_defs)
qed

lemma isRigid_rigidWithin: "isRigid m \<Longrightarrow> 0 \<le> tol \<Longrightarrow> rigidWithin tol m"
  by (simp add: isRigid_def orthonormalRows_def rigidWithin_def magnitude_def)

lemma applyOp_rigid:
  assumes "rigidGeometry g" "isRigid (rotation s)" "rigidArgument op"
  shows "isRigid (rotation (applyOp g s op))"
proof (cases op)
  case (SetRotation rot)
  then show ?thesis using assms by (simp add: setRotation_def)
next
  case (LookAt eyePoint targetPoint upVector newExtents frontDistance backDistance)
  then show ?thesis using assms by (simp add: lookAt_rigid)
next
  case (SetupFromFrustum frustum)
  then show ?thesis
    using assms by (simp add: ViewState3d_setupFromFrustum_rotation ViewState_setupFromFrustum_rigid)
qed

text \<open>
  Claim C3.  Let the missing operations be as the spec describes them
  (\<open>rigidGeometry\<close>) and let the view start with a rigid rotation, as its constructor
  asserts.  After any sequence of \<^verbatim>\<open>setRotation\<close> calls with orthonormal arguments,
  \<^verbatim>\<open>lookAt\<close> calls and \<^verbatim>\<open>setupFromFrustum\<close> calls, whatever their other arguments and
  whether they succeed or not, the stored rotation is rigid: rows of unit length,
  mutually orthogonal, determinant 1 or -1.  In the exact arithmetic of this model it
  is so without error, hence within \<open>10\<^sup>-\<^sup>9\<close>.
\<close>

theorem rigidity_invariant:
  assumes "rigidGeometry g" and "isRigid (rotation s)" and "\<forall>op \<in> set ops. rigidArgument op"
  shows "isRigid (rotation (runOps g s ops)) \<and> rigidWithin (1 / 1000000000) (rotation (runOps g s ops))"
proof -
  have "isRigid (rotation (runOps g s ops))"
    using assms(2,3)
  proof (induction ops arbitrary: s)
    case Nil
    then show ?case by simp
  next
    case (Cons op ops)
    have "isRigid (rotation (applyOp g s op))"
      using assms(1) Cons.prems by (intro applyOp_rigid) simp_all
    then show ?case
      using Cons.IH [of "applyOp g s op"] Cons.prems by simp
  qed
  then show ?thesis by (simp add: isRigid_rigidWithin)
qed

lemma inverse_sign:
  assumes "d * d = (1::real)"
  shows "1 / d = d"
  using assms by (metis mult_eq_0_iff nonzero_mult_div_cancel_left zero_neq_one)

lemma orthonormal_cofactors:
  assumes "orthonormalRows (Mat3 a b c)"
  shows "scale3 (crossProduct a b) (1 / determinant (Mat3 a b c)) = c"
    and "scale3 (crossProduct b c) (1 / determinant (Mat3 a b c)) = a"
    and "scale3 (crossProduct c a) (1 / determinant (Mat3 a b c)) = b"
proof -
  have o1: "orthonormalRows (Mat3 b c a)" and o2: "orthonormalRows (Mat3 c a b)"
    using assms by (simp_all add: orthonormalRows_def dot_commute)
  have d1: "determinant (Mat3 b c a) = determinant (Mat3 a b c)"
    and d2: "determinant (Mat3 c a b) = determinant (Mat3 a b c)"
    by (simp_all add: vec_defs algebra_simps)
  note t0 = third_row [OF assms] and t1 = third_row [OF o1, unfolded d1] and t2 = third_row [OF o2, unfolded d2]
  have inv: "1 / determinant (Mat3 a b c) = determinant (Mat3 a b c)"
    using t0(2) by (rule inverse_sign)
  show "scale3 (crossProduct a b) (1 / determinant (Mat3 a b c)) = c"
    unfolding inv using t0(1) by simp
  show "scale3 (crossProduct b c) (1 / determinant (Mat3 a b c)) = a"
    unfolding inv using t1(1) by simp
  show "scale3 (crossProduct c a) (1 / determinant (Mat3 a b c)) = b"
    unfolding inv using t2(1) by simp
qed

lemma ref_inverse_rigid:
  assumes "isRigid m" and "ref_inverse m = Some n"
  shows "isRigid n"
proof -
  obtain a b c where m: "m = Mat3 a b c" by (cases m)
  have o: "orthonormalRows (Mat3 a b c)"
    using assms(1) m by (simp add: isRigid_def)
  have "n = transpose3 m"
    using assms(2) orthonormal_cofactors [OF o]
    by (simp add: ref_inverse_def m split: if_splits)
  then show ?thesis
    using assms(1) by (simp add: isRigid_transpose)
qed

lemma ref_normalize_unit:
  assumes "ref_normalize v = Some u"
  shows "0 < magnitude v" "u = scale3 v (1 / magnitude v)" "dotProduct u u = 1"
proof -
  show p: "0 < magnitude v" and u: "u = scale3 v (1 / magnitude v)"
    using assms by (simp_all add: ref_normalize_def split: if_splits)
  show "dotProduct u u = 1"
    unfolding u using p by (rule unit_scale)
qed

lemma ref_createRigidFromColumns_rigid:
  assumes "ref_createRigidFromColumns a b = Some m"
  shows "isRigid m"
proof -
  obtain x z where x: "ref_normalize a = Some x" and z: "ref_normalize (crossProduct a b) = Some z"
    and m: "m = transpose3 (Mat3 x (crossProduct z x) z)"
    using assms by (auto simp: ref_createRigidFromColumns_def split: option.splits)
  note ux = ref_normalize_unit [OF x] and uz = ref_normalize_unit [OF z]
  have "dotProduct z x = 1 / magnitude (crossProduct a b) * (1 / magnitude a *
          dotProduct a (crossProduct a b))"
    unfolding ux(2) uz(2)
    by (simp only: dot_scale_left dot_commute [of "crossProduct a b" "scale3 a (1 / magnitude a)"])
  then have zx: "dotProduct z x = 0"
    by (simp add: cross_dot_left)
  have "orthonormalRows (Mat3 z x (crossProduct z x))"
    using uz(3) ux(3) zx by (rule frame_rows)
  then have "orthonormalRows (Mat3 x (crossProduct z x) z)"
    by (simp add: orthonormalRows_def dot_commute)
  then show ?thesis
    unfolding m by (intro orthonormalRows_isRigid orthonormal_transpose)
qed

lemma rigidGeometry_refDeps: "rigidGeometry refDeps"
  unfolding rigidGeometry_def
proof (intro conjI allI impI)
  show "0 < smallMetricDistance refDeps" by (simp add: refDeps_def)
  show "0 < magnitude v" if "0 < snd (normalizeWithLength refDeps v)" for v
    using that by (simp add: refDeps_def ref_normalizeWithLength_def split: if_splits)
  show "fst (normalizeWithLength refDeps v) = scale3 v (1 / magnitude v)"
    if "0 < snd (normalizeWithLength refDeps v)" for v
    using that by (simp add: refDeps_def ref_normalizeWithLength_def split: if_splits)
  show "isRigid m" if "createRigidFromColumns refDeps a b = Some m" for a b m
    using that by (simp add: refDeps_def ref_createRigidFromColumns_rigid)
  show "isRigid (adjustToStandardRotation refDeps m)" if "isRigid m" for m
    using that by (simp add: refDeps_def)
  show "isRigid n" if "isRigid m" "matrixInverse refDeps m = Some n" for m n
    using that by (simp add: refDeps_def ref_inverse_rigid)
qed

lemma isRigid_identity3: "isRigid identity3"
  by (simp add: isRigid_def orthonormalRows_def identity3_def vec_defs)

lemma isRigid_quarterTurn: "isRigid quarterTurn"
  by (simp add: isRigid_def orthonormalRows_def quarterTurn_def vec_defs)

theorem rigidity_invariant_witness:
  "rigidGeometry refDeps \<and> isRigid (rotation view0) \<and>
   rigidArgument (SetRotation quarterTurn) \<and>
   isRigid (rotation (runOps refDeps view0
      [LookAt (Vec3 0 0 100) (Vec3 0 0 0) (Vec3 0 1 0) None None None,
       SetupFromFrustum explodingFrustum, SetRotation quarterTurn,
       LookAt (Vec3 3 4 12) (Vec3 1 1 1) (Vec3 0 0 1) None None None])) \<and>
   rigidWithin (1 / 1000000000) (rotation (runOps refDeps view0
      [LookAt (Vec3 0 0 100) (Vec3 0 0 0) (Vec3 0 1 0) None None None,
       SetupFromFrustum explodingFrustum, SetRotation quarterTurn,
       LookAt (Vec3 3 4 12) (Vec3 1 1 1) (Vec3 0 0 1) None None None]))"
proof -
  have r0: "isRigid (rotation view0)" by (simp add: view0_def isRigid_identity3)
  have args: "\<forall>op \<in> set [LookAt (Vec3 0 0 100) (Vec3 0 0 0) (Vec3 0 1 0) None None None,
       SetupFromFrustum explodingFrustum, SetRotation quarterTurn,
       LookAt (Vec3 3 4 12) (Vec3 1 1 1) (Vec3 0 0 1) None None None]. rigidArgument op"
    by (simp add: isRigid_quarterTurn)
  show ?thesis
    using rigidity_invariant [OF rigidGeometry_refDeps r0 args] rigidGeometry_refDeps r0
    by (simp add: isRigid_quarterTurn)
qed

end
